theory Spec2Isabelle
  imports Main "HOL-Library.Word"
begin

section \<open>The transaction admission validator (validate_transaction.cpp)\<close>

text \<open>
  A shallow embedding of \<^verbatim>\<open>src/lib/blockchain/validate_transaction.cpp\<close>.
  Machine integers are words of the width the source declares (\<^verbatim>\<open>uint64_t\<close> and
  \<^verbatim>\<open>size_t\<close> are 64 bits, \<^verbatim>\<open>uint32_t\<close> 32 bits, \<^verbatim>\<open>uint8_t\<close> 8 bits), so
  that every addition and subtraction wraps as it does in the source.
\<close>

subsection \<open>Error codes\<close>

text \<open>
  The values of \<^verbatim>\<open>error::\<close> that the validator names. A chain callback can deliver
  any other code; those are \<open>other_error\<close>.
\<close>

datatype code =
    success | not_found | unspent_output | input_not_found | coinbase_transaction
  | is_not_standard | duplicate | double_spend | validate_inputs_failed
  | fees_out_of_range | empty_transaction | size_limits | output_value_overflow
  | transaction_version_error | nova_feature_not_activated | script_not_standard
  | invalid_coinbase_script_size | previous_output_null
  | invalid_input_script_lock_height | invalid_output_script_lock_height
  | attenuation_model_param_error | attachment_invalid | asset_symbol_invalid
  | did_symbol_invalid | mit_symbol_invalid | asset_exist | asset_cert_exist
  | mit_exist | did_exist | did_not_exist | address_registered_did
  | did_address_needed | did_multi_type_exist | did_input_error
  | did_address_not_match | did_symbol_not_match | asset_amount_not_equal
  | asset_symbol_not_match | asset_cert_error | asset_cert_not_provided
  | asset_cert_issue_error | asset_issue_error | asset_secondaryissue_error
  | asset_secondaryissue_threshold_invalid | asset_secondaryissue_share_not_enough
  | asset_did_registerr_not_match | mit_error | mit_register_error
  | other_error nat

text \<open>\<^verbatim>\<open>std::vector::at\<close> throws when the index is out of range.\<close>

datatype exn = out_of_range

subsection \<open>Domain value types\<close>

text \<open>\<^verbatim>\<open>business_kind\<close>, as section 4.1 of the specification lists it.\<close>

datatype business_kind =
    etp | asset_issue | asset_transfer | asset_cert | asset_mit
  | did_register | did_transfer

text \<open>\<^verbatim>\<open>asset_cert_type\<close> with the named values of \<^verbatim>\<open>asset_cert_ns\<close>.\<close>

datatype asset_cert_type =
    cert_none | cert_issue | cert_domain | cert_naming | cert_other nat

datatype did_status = DID_DETAIL_TYPE | DID_TRANSFERABLE_TYPE

type_synonym hash_digest = "256 word"
type_synonym uint64 = "64 word"
type_synonym uint32 = "32 word"
type_synonym uint8 = "8 word"

record asset_detail =
  detail_symbol :: string
  maximum_supply :: uint64
  secondaryissue_threshold :: uint8
  detail_is_asset_secondaryissue :: bool
  issuer :: string
  detail_address :: string
  asset_cert_mask :: "asset_cert_type list"

record asset_transfer_data =
  transfer_symbol :: string
  quantity :: uint64

record asset_cert_data =
  cert_symbol :: string
  cert_owner :: string
  cert_address :: string
  cert_type :: asset_cert_type
  cert_status :: uint8

record asset_mit_data =
  mit_symbol :: string
  mit_address :: string

record did_detail =
  did_detail_symbol :: string
  did_detail_address :: string

record did =
  did_get_status :: did_status
  did_get_data :: did_detail

text \<open>
  Modelled from the spec: the declaration of the output's attachment is not part of the
  sources at hand. Section 3 describes it as a tagged variant selecting exactly one of
  eleven kinds, and section 4.1 says that the kind predicates partition the outputs.
\<close>

datatype attach =
    attach_etp
  | attach_message string
  | attach_asset_issue asset_detail
  | attach_asset_secondaryissue asset_detail
  | attach_asset_transfer asset_transfer_data
  | attach_asset_cert asset_cert_data
  | attach_asset_cert_issue asset_cert_data
  | attach_asset_mit_register asset_mit_data
  | attach_asset_mit_transfer asset_mit_data
  | attach_did_register did_detail
  | attach_did_transfer did_detail

record attachment =
  attach_version :: uint32
  from_did :: string
  to_did :: string
  attach_of :: attach

text \<open>
  A script is consumed through the pattern recognisers of \<^verbatim>\<open>chain::operation\<close> and
  \<^verbatim>\<open>chain::script\<close>, which are outside the sources at hand; the record holds what
  those recognisers report for the script.
\<close>

record script =
  pattern_non_standard :: bool
  is_pay_key_hash_with_attenuation_model_pattern :: bool
  attenuation_model_param :: string
  is_pay_key_hash_with_lock_height_pattern :: bool
  is_sign_key_hash_with_lock_height_pattern :: bool
  lock_height_of :: uint64
  script_serialized_size :: nat
  script_address :: string

record output_point =
  point_hash :: hash_digest
  point_index :: uint32

record input =
  previous_output :: output_point
  input_script :: script

record tx_output =
  output_value :: uint64
  output_script :: script
  attach_data :: attachment

record transaction =
  version :: uint32
  inputs :: "input list"
  outputs :: "tx_output list"


subsection \<open>Accessors of outputs and transactions\<close>

text \<open>
  Modelled from the spec: the accessors of \<^verbatim>\<open>chain::output\<close> and
  \<^verbatim>\<open>chain::transaction\<close> are declared outside the sources at hand. The kind
  predicates are pattern matches on the attachment (section 9, polymorphic outputs);
  an accessor returns the payload's field for its kinds and the empty value otherwise.
\<close>

definition kind_of :: "tx_output \<Rightarrow> attach" where
  "kind_of out = attach_of (attach_data out)"

definition is_etp :: "tx_output \<Rightarrow> bool" where
  "is_etp out = (case kind_of out of attach_etp \<Rightarrow> True | _ \<Rightarrow> False)"

definition is_message :: "tx_output \<Rightarrow> bool" where
  "is_message out = (case kind_of out of attach_message m \<Rightarrow> True | _ \<Rightarrow> False)"

definition is_asset_issue :: "tx_output \<Rightarrow> bool" where
  "is_asset_issue out = (case kind_of out of attach_asset_issue d \<Rightarrow> True | _ \<Rightarrow> False)"

definition is_asset_secondaryissue :: "tx_output \<Rightarrow> bool" where
  "is_asset_secondaryissue out =
     (case kind_of out of attach_asset_secondaryissue d \<Rightarrow> True | _ \<Rightarrow> False)"

definition is_asset_transfer :: "tx_output \<Rightarrow> bool" where
  "is_asset_transfer out =
     (case kind_of out of attach_asset_transfer t \<Rightarrow> True | _ \<Rightarrow> False)"

definition is_asset :: "tx_output \<Rightarrow> bool" where
  "is_asset out =
     (is_asset_issue out \<or> is_asset_secondaryissue out \<or> is_asset_transfer out)"

definition is_asset_cert :: "tx_output \<Rightarrow> bool" where
  "is_asset_cert out = (case kind_of out of attach_asset_cert c \<Rightarrow> True | _ \<Rightarrow> False)"

definition is_asset_cert_issue :: "tx_output \<Rightarrow> bool" where
  "is_asset_cert_issue out =
     (case kind_of out of attach_asset_cert_issue c \<Rightarrow> True | _ \<Rightarrow> False)"

definition is_asset_mit_register :: "tx_output \<Rightarrow> bool" where
  "is_asset_mit_register out =
     (case kind_of out of attach_asset_mit_register m \<Rightarrow> True | _ \<Rightarrow> False)"

definition is_asset_mit_transfer :: "tx_output \<Rightarrow> bool" where
  "is_asset_mit_transfer out =
     (case kind_of out of attach_asset_mit_transfer m \<Rightarrow> True | _ \<Rightarrow> False)"

definition is_asset_mit :: "tx_output \<Rightarrow> bool" where
  "is_asset_mit out = (is_asset_mit_register out \<or> is_asset_mit_transfer out)"

definition is_did_register :: "tx_output \<Rightarrow> bool" where
  "is_did_register out = (case kind_of out of attach_did_register d \<Rightarrow> True | _ \<Rightarrow> False)"

definition is_did_transfer :: "tx_output \<Rightarrow> bool" where
  "is_did_transfer out = (case kind_of out of attach_did_transfer d \<Rightarrow> True | _ \<Rightarrow> False)"

definition is_did :: "tx_output \<Rightarrow> bool" where
  "is_did out = (is_did_register out \<or> is_did_transfer out)"

definition get_asset_symbol :: "tx_output \<Rightarrow> string" where
  "get_asset_symbol out =
     (case kind_of out of
        attach_asset_issue d \<Rightarrow> detail_symbol d
      | attach_asset_secondaryissue d \<Rightarrow> detail_symbol d
      | attach_asset_transfer t \<Rightarrow> transfer_symbol t
      | attach_asset_cert c \<Rightarrow> cert_symbol c
      | attach_asset_cert_issue c \<Rightarrow> cert_symbol c
      | attach_asset_mit_register m \<Rightarrow> mit_symbol m
      | attach_asset_mit_transfer m \<Rightarrow> mit_symbol m
      | _ \<Rightarrow> [])"

definition get_asset_amount :: "tx_output \<Rightarrow> uint64" where
  "get_asset_amount out =
     (case kind_of out of
        attach_asset_issue d \<Rightarrow> maximum_supply d
      | attach_asset_secondaryissue d \<Rightarrow> maximum_supply d
      | attach_asset_transfer t \<Rightarrow> quantity t
      | _ \<Rightarrow> 0)"

definition get_asset_issuer :: "tx_output \<Rightarrow> string" where
  "get_asset_issuer out =
     (case kind_of out of
        attach_asset_issue d \<Rightarrow> issuer d
      | attach_asset_secondaryissue d \<Rightarrow> issuer d
      | _ \<Rightarrow> [])"

definition get_asset_cert_symbol :: "tx_output \<Rightarrow> string" where
  "get_asset_cert_symbol out =
     (case kind_of out of
        attach_asset_cert c \<Rightarrow> cert_symbol c
      | attach_asset_cert_issue c \<Rightarrow> cert_symbol c
      | _ \<Rightarrow> [])"

definition get_asset_cert_owner :: "tx_output \<Rightarrow> string" where
  "get_asset_cert_owner out =
     (case kind_of out of
        attach_asset_cert c \<Rightarrow> cert_owner c
      | attach_asset_cert_issue c \<Rightarrow> cert_owner c
      | _ \<Rightarrow> [])"

definition get_asset_cert_type :: "tx_output \<Rightarrow> asset_cert_type" where
  "get_asset_cert_type out =
     (case kind_of out of
        attach_asset_cert c \<Rightarrow> cert_type c
      | attach_asset_cert_issue c \<Rightarrow> cert_type c
      | _ \<Rightarrow> cert_none)"

definition get_did_symbol :: "tx_output \<Rightarrow> string" where
  "get_did_symbol out =
     (case kind_of out of
        attach_did_register d \<Rightarrow> did_detail_symbol d
      | attach_did_transfer d \<Rightarrow> did_detail_symbol d
      | _ \<Rightarrow> [])"

definition get_did_address :: "tx_output \<Rightarrow> string" where
  "get_did_address out =
     (case kind_of out of
        attach_did_register d \<Rightarrow> did_detail_address d
      | attach_did_transfer d \<Rightarrow> did_detail_address d
      | _ \<Rightarrow> [])"

definition get_script_address :: "tx_output \<Rightarrow> string" where
  "get_script_address out = script_address (output_script out)"

text \<open>
  Modelled from the spec: \<^verbatim>\<open>transaction::total_output_value\<close> is the sum of the
  output values (section 8, invariant 1), accumulated in \<^verbatim>\<open>uint64_t\<close>.
\<close>

definition total_output_value :: "transaction \<Rightarrow> uint64" where
  "total_output_value tx = sum_list (map output_value (outputs tx))"

text \<open>
  Modelled from the spec: \<^verbatim>\<open>transaction::total_output_transfer_amount\<close> is the sum
  of the asset-transfer amounts over the outputs (section 8, invariant 2), and
  \<^verbatim>\<open>has_asset_transfer\<close>, \<^verbatim>\<open>has_did_transfer\<close> say whether an output of that
  kind is present.
\<close>

definition total_output_transfer_amount :: "transaction \<Rightarrow> uint64" where
  "total_output_transfer_amount tx =
     sum_list (map get_asset_amount (filter is_asset_transfer (outputs tx)))"

definition has_asset_transfer :: "transaction \<Rightarrow> bool" where
  "has_asset_transfer tx = list_ex is_asset_transfer (outputs tx)"

definition has_did_transfer :: "transaction \<Rightarrow> bool" where
  "has_did_transfer tx = list_ex is_did_transfer (outputs tx)"

text \<open>
  Modelled from the spec: \<^verbatim>\<open>asset_cert::test_certs\<close> asks whether a cert type
  occurs in a list of cert types (section 4.6, no duplicate cert type), and its second
  form whether every type of one list occurs in the other; \<^verbatim>\<open>asset_cert::get_domain\<close>
  is the prefix of the symbol before the first dot (section 3).
\<close>

definition test_certs :: "asset_cert_type list \<Rightarrow> asset_cert_type \<Rightarrow> bool" where
  "test_certs certs t = (t \<in> set certs)"

definition test_certs_all :: "asset_cert_type list \<Rightarrow> asset_cert_type list \<Rightarrow> bool" where
  "test_certs_all certs parts = list_all (test_certs certs) parts"

definition get_domain :: "string \<Rightarrow> string" where
  "get_domain symbol = takeWhile (\<lambda>c. c \<noteq> CHR ''.'') symbol"

subsection \<open>Storage access interfaces and the constants of the chain\<close>

text \<open>
  The chain store, read through its synchronous queries and through its fetch
  operations. A fetch delivers its callback's arguments: the code and, where there is
  one, the value (meaningful when the code is \<open>success\<close>).
\<close>

record chain =
  fetch_transaction :: "hash_digest \<Rightarrow> code \<times> transaction"
  fetch_transaction_index :: "hash_digest \<Rightarrow> code \<times> uint64"
  fetch_last_height :: "code \<times> uint64"
  fetch_spend :: "output_point \<Rightarrow> code"
  get_transaction :: "hash_digest \<Rightarrow> (transaction \<times> uint64) option"
  get_last_height :: "uint64 option"
  is_asset_exist :: "string \<Rightarrow> bool \<Rightarrow> bool"
  is_asset_cert_exist :: "string \<Rightarrow> asset_cert_type \<Rightarrow> bool"
  get_registered_did :: "string \<Rightarrow> did_detail option"
  get_registered_mit :: "string \<Rightarrow> asset_mit_data option"
  is_valid_address :: "string \<Rightarrow> bool"
  is_did_exist :: "string \<Rightarrow> bool"
  is_address_registered_did :: "string \<Rightarrow> bool"
  get_did_from_address :: "string \<Rightarrow> string"
  get_asset_volume :: "string \<Rightarrow> uint64"
  use_testnet_rules :: bool

record pool =
  is_in_pool :: "hash_digest \<Rightarrow> bool"
  pool_find :: "hash_digest \<Rightarrow> transaction option"
  is_spent_in_pool :: "transaction \<Rightarrow> bool"

text \<open>
  The constants and the pure helpers that the validator takes from the rest of the
  library (chain constants, the version enumeration, symbol and script rules, the script
  interpreter). None of them is defined in the sources at hand, so each is a field here.
\<close>

record env =
  max_money :: uint64
  coinbase_maturity :: uint64
  check_output_script :: uint32
  check_nova_testnet :: uint32
  check_nova_feature :: uint32
  max_version :: uint32
  all_enabled :: uint32
  DID_ATTACH_VERIFY_VERSION :: uint32
  ASSET_CERT_TRANSFER_TYPE :: uint8
  tx_hash :: "transaction \<Rightarrow> hash_digest"
  serialized_size :: "transaction \<Rightarrow> nat"
  point_is_null :: "output_point \<Rightarrow> bool"
  script_verify :: "script \<Rightarrow> script \<Rightarrow> transaction \<Rightarrow> uint32 \<Rightarrow> uint32 \<Rightarrow> bool"
  is_forbidden :: "string \<Rightarrow> bool"
  is_valid_symbol :: "string \<Rightarrow> uint32 \<Rightarrow> bool"
  is_valid_did_symbol :: "string \<Rightarrow> bool \<Rightarrow> bool"
  is_valid_mit_symbol :: "string \<Rightarrow> bool \<Rightarrow> bool"
  is_valid_domain :: "string \<Rightarrow> bool"
  attachment_is_valid :: "attachment \<Rightarrow> bool"
  check_model_param :: "string \<Rightarrow> uint64 \<Rightarrow> bool"
  check_model_param_tx :: "transaction \<Rightarrow> chain \<Rightarrow> code"
  get_lock_heights_index :: "uint64 \<Rightarrow> int"
  check_attachment_address :: "tx_output \<Rightarrow> chain \<Rightarrow> code"
  check_attachment_did_match_address :: "tx_output \<Rightarrow> chain \<Rightarrow> code"
  is_secondaryissue_owns_enough :: "uint64 \<Rightarrow> uint64 \<Rightarrow> uint8 \<Rightarrow> bool"
  is_secondaryissue_threshold_value_ok :: "asset_detail \<Rightarrow> bool"

definition min_tx_fee :: uint64 where
  "min_tx_fee = 10000"

definition max_transaction_size :: nat where
  "max_transaction_size = 1000000"

definition max_uint64 :: uint64 where
  "max_uint64 = - 1"

text \<open>
  Modelled from the spec: \<^verbatim>\<open>transaction::is_coinbase\<close> holds of a transaction with
  exactly one input, whose previous output is null (section 4.4).
\<close>

definition is_coinbase :: "env \<Rightarrow> transaction \<Rightarrow> bool" where
  "is_coinbase e tx =
     (case inputs tx of [i] \<Rightarrow> point_is_null e (previous_output i) | _ \<Rightarrow> False)"


subsection \<open>Running aggregates and \<^verbatim>\<open>connect_input\<close>\<close>

text \<open>
  The six reference parameters of \<^verbatim>\<open>connect_input\<close>. The function writes through
  them before it returns, also when it returns false, so the model returns the verdict
  together with the aggregates as they stand at the return.
\<close>

record aggregates =
  value_in :: uint64
  asset_amount_in :: uint64
  asset_certs_in :: "asset_cert_type list"
  old_symbol_in :: string
  new_symbol_in :: string
  business_kind_in :: business_kind

text \<open>
  \<^verbatim>\<open>check_consensus\<close> hands the two scripts, the transaction, the input index and the
  flags to the script interpreter and returns its answer.
\<close>

definition check_consensus ::
  "env \<Rightarrow> script \<Rightarrow> transaction \<Rightarrow> nat \<Rightarrow> uint32 \<Rightarrow> bool" where
  "check_consensus e prevout_script current_tx input_index flags =
     script_verify e (input_script (inputs current_tx ! input_index)) prevout_script
       current_tx (of_nat input_index) flags"

text \<open>
  The four branches on the kind of the previous output (lines 1224 to 1306). Each
  returns \<open>False\<close> where the source returns false from \<^verbatim>\<open>connect_input\<close>.
\<close>

definition connect_asset :: "tx_output \<Rightarrow> aggregates \<Rightarrow> bool \<times> aggregates" where
  "connect_asset previous_out a0 =
     (let a1 = a0\<lparr>new_symbol_in := get_asset_symbol previous_out\<rparr> in
      if new_symbol_in a1 \<noteq> [] \<and> old_symbol_in a1 \<noteq> []
           \<and> old_symbol_in a1 \<noteq> new_symbol_in a1
      then (False, a1)
      else
        let a2 = (if new_symbol_in a1 \<noteq> [] \<and> old_symbol_in a1 = []
                  then a1\<lparr>old_symbol_in := new_symbol_in a1\<rparr> else a1)
        in (True,
            if is_asset_issue previous_out \<or> is_asset_secondaryissue previous_out
            then a2\<lparr>business_kind_in := asset_issue\<rparr>
            else if is_asset_transfer previous_out
            then a2\<lparr>business_kind_in := did_transfer\<rparr>
            else a2))"

definition connect_cert :: "tx_output \<Rightarrow> aggregates \<Rightarrow> bool \<times> aggregates" where
  "connect_cert previous_out a0 =
     (let a1 = a0\<lparr>business_kind_in := asset_cert,
                   new_symbol_in := get_asset_symbol previous_out\<rparr>;
          asset_certs = get_asset_cert_type previous_out
      in
      if old_symbol_in a1 = []
      then (\<not> test_certs (asset_certs_in a1) asset_certs,
            a1\<lparr>old_symbol_in := new_symbol_in a1\<rparr>)
      else if test_certs (asset_certs_in a1) cert_domain
      then (if get_domain (old_symbol_in a1) \<noteq> get_asset_cert_symbol previous_out
            then (False, a1)
            else (\<not> test_certs (asset_certs_in a1) asset_certs, a1))
      else if old_symbol_in a1 \<noteq> new_symbol_in a1
      then (False, a1)
      else (\<not> test_certs (asset_certs_in a1) asset_certs, a1))"

definition connect_mit :: "tx_output \<Rightarrow> aggregates \<Rightarrow> bool \<times> aggregates" where
  "connect_mit previous_out a0 =
     (let a1 = a0\<lparr>business_kind_in := asset_mit,
                   new_symbol_in := get_asset_symbol previous_out\<rparr>
      in
      if old_symbol_in a1 = [] then (True, a1\<lparr>old_symbol_in := new_symbol_in a1\<rparr>)
      else if old_symbol_in a1 \<noteq> new_symbol_in a1 then (False, a1)
      else (True, a1))"

definition connect_did :: "tx_output \<Rightarrow> aggregates \<Rightarrow> bool \<times> aggregates" where
  "connect_did previous_out a0 =
     (let a1 = a0\<lparr>new_symbol_in := get_did_symbol previous_out\<rparr> in
      if new_symbol_in a1 \<noteq> [] \<and> old_symbol_in a1 \<noteq> []
           \<and> old_symbol_in a1 \<noteq> new_symbol_in a1
      then (False, a1)
      else
        let a2 = (if new_symbol_in a1 \<noteq> [] \<and> old_symbol_in a1 = []
                  then a1\<lparr>old_symbol_in := new_symbol_in a1\<rparr> else a1)
        in (True,
            if is_did_register previous_out
            then a2\<lparr>business_kind_in := did_register\<rparr>
            else if is_did_transfer previous_out
            then a2\<lparr>business_kind_in := did_transfer\<rparr>
            else a2))"

definition connect_kind :: "tx_output \<Rightarrow> aggregates \<Rightarrow> bool \<times> aggregates" where
  "connect_kind previous_out a =
     (if is_asset previous_out then connect_asset previous_out a
      else if is_asset_cert previous_out then connect_cert previous_out a
      else if is_asset_mit previous_out then connect_mit previous_out a
      else if is_did previous_out then connect_did previous_out a
      else (True, a))"

text \<open>
  \<^verbatim>\<open>connect_input\<close> (lines 1200 to 1333). The height difference is a subtraction of
  two \<^verbatim>\<open>size_t\<close> values and wraps.
\<close>

definition connect_input ::
  "env \<Rightarrow> transaction \<Rightarrow> nat \<Rightarrow> transaction \<Rightarrow> uint64 \<Rightarrow> uint64 \<Rightarrow> uint32
     \<Rightarrow> aggregates \<Rightarrow> bool \<times> aggregates" where
  "connect_input e tx current_input previous_tx parent_height last_block_height flags a =
     (let previous_outpoint = previous_output (inputs tx ! current_input) in
      if unat (point_index previous_outpoint) \<ge> length (outputs previous_tx)
      then (False, a)
      else
        let previous_out = outputs previous_tx ! unat (point_index previous_outpoint);
            out_value = output_value previous_out
        in
        if out_value > max_money e then (False, a)
        else
          let asset_transfer_amount =
                (if is_asset previous_out then get_asset_amount previous_out else 0);
              asset_certs =
                (if \<not> is_asset previous_out \<and> is_asset_cert previous_out
                 then get_asset_cert_type previous_out else cert_none)
          in
          case connect_kind previous_out a of
            (False, a1) \<Rightarrow> (False, a1)
          | (True, a1) \<Rightarrow>
              if is_coinbase e previous_tx
                   \<and> last_block_height - parent_height < coinbase_maturity e
              then (False, a1)
              else if is_asset previous_out \<and> is_forbidden e (new_symbol_in a1)
              then (False, a1)
              else if \<not> check_consensus e (output_script previous_out) tx current_input flags
              then (False, a1)
              else
                let a2 = a1\<lparr>value_in := value_in a1 + out_value,
                            asset_amount_in := asset_amount_in a1 + asset_transfer_amount,
                            asset_certs_in :=
                              (if asset_certs \<noteq> cert_none
                               then asset_certs_in a1 @ [asset_certs]
                               else asset_certs_in a1)\<rparr>
                in (value_in a2 \<le> max_money e, a2))"

subsection \<open>Fees and the conservation checks of \<^verbatim>\<open>check_fees\<close>\<close>

text \<open>\<^verbatim>\<open>tally_fees\<close> returns its verdict and \<^verbatim>\<open>total_fees\<close> as it leaves it.\<close>

definition tally_fees :: "env \<Rightarrow> transaction \<Rightarrow> uint64 \<Rightarrow> uint64 \<Rightarrow> bool \<times> uint64" where
  "tally_fees e tx value_in_arg total_fees =
     (let value_out = total_output_value tx in
      if value_in_arg < value_out then (False, total_fees)
      else
        let fee = value_in_arg - value_out in
        if fee < min_tx_fee then (False, total_fees)
        else (total_fees + fee \<le> max_money e, total_fees + fee))"

definition check_asset_amount :: "transaction \<Rightarrow> aggregates \<Rightarrow> bool" where
  "check_asset_amount tx a =
     (let asset_amount_out = total_output_transfer_amount tx in
      if asset_amount_in a \<noteq> asset_amount_out then False else True)"

text \<open>
  The loop shared by \<^verbatim>\<open>check_asset_symbol\<close> and \<^verbatim>\<open>check_did_symbol_match\<close>:
  \<open>None\<close> where the loop returns false, otherwise the last value of
  \<^verbatim>\<open>old_symbol\<close>.
\<close>

fun symbols_agree :: "string list \<Rightarrow> string \<Rightarrow> string option" where
  "symbols_agree [] old_symbol = Some old_symbol"
| "symbols_agree (new_symbol # rest) old_symbol =
     (if new_symbol \<noteq> [] then
        (if old_symbol = [] then symbols_agree rest new_symbol
         else if old_symbol \<noteq> new_symbol then None
         else symbols_agree rest old_symbol)
      else symbols_agree rest old_symbol)"

definition check_asset_symbol :: "transaction \<Rightarrow> aggregates \<Rightarrow> bool" where
  "check_asset_symbol tx a =
     (case symbols_agree (map get_asset_symbol (outputs tx)) [] of
        None \<Rightarrow> False
      | Some old_symbol \<Rightarrow> if old_symbol \<noteq> old_symbol_in a then False else True)"

definition check_did_symbol_match :: "transaction \<Rightarrow> aggregates \<Rightarrow> bool" where
  "check_did_symbol_match tx a =
     (case symbols_agree (map get_did_symbol (outputs tx)) [] of
        None \<Rightarrow> False
      | Some old_symbol \<Rightarrow> if old_symbol \<noteq> old_symbol_in a then False else True)"

text \<open>
  The loop of \<^verbatim>\<open>check_asset_certs\<close> over the outputs, with its two locals
  \<^verbatim>\<open>is_cert_transfer\<close> and \<^verbatim>\<open>asset_certs_out\<close>; \<open>None\<close> where it returns false.
\<close>

fun asset_certs_loop ::
  "env \<Rightarrow> aggregates \<Rightarrow> tx_output list \<Rightarrow> bool \<times> asset_cert_type list
     \<Rightarrow> (bool \<times> asset_cert_type list) option" where
  "asset_certs_loop e a [] acc = Some acc"
| "asset_certs_loop e a (out # rest) (is_cert_transfer, asset_certs_out) =
     (case kind_of out of
        attach_asset_cert c \<Rightarrow>
          (if test_certs asset_certs_out (cert_type c) then None
           else if test_certs (asset_certs_in a) cert_domain
                     \<and> get_domain (cert_symbol c) \<noteq> old_symbol_in a then None
           else if \<not> test_certs (asset_certs_in a) cert_domain
                     \<and> old_symbol_in a \<noteq> cert_symbol c then None
           else asset_certs_loop e a rest
                  (is_cert_transfer \<or> cert_status c = ASSET_CERT_TRANSFER_TYPE e,
                   asset_certs_out @ [cert_type c]))
      | _ \<Rightarrow>
          (if get_asset_symbol out \<noteq> []
           then asset_certs_loop e a rest (is_cert_transfer, asset_certs_out)
           else if \<not> is_etp out \<and> \<not> is_message out then None
           else asset_certs_loop e a rest (is_cert_transfer, asset_certs_out)))"

definition check_asset_certs :: "env \<Rightarrow> transaction \<Rightarrow> aggregates \<Rightarrow> bool" where
  "check_asset_certs e tx a =
     (case asset_certs_loop e a (outputs tx) (False, []) of
        None \<Rightarrow> False
      | Some (is_cert_transfer, asset_certs_out) \<Rightarrow>
          if is_cert_transfer \<and> length (asset_certs_in a) \<noteq> 1 then False
          else if is_cert_transfer \<and> length asset_certs_out \<noteq> 1 then False
          else test_certs_all asset_certs_out (asset_certs_in a))"

text \<open>The loop of \<^verbatim>\<open>check_asset_mit\<close>, counting \<^verbatim>\<open>num_mit\<close>.\<close>

fun asset_mit_loop :: "aggregates \<Rightarrow> tx_output list \<Rightarrow> nat \<Rightarrow> nat option" where
  "asset_mit_loop a [] num_mit = Some num_mit"
| "asset_mit_loop a (out # rest) num_mit =
     (case kind_of out of
        attach_asset_mit_transfer m \<Rightarrow>
          (if num_mit + 1 > 1 then None
           else if old_symbol_in a \<noteq> mit_symbol m then None
           else asset_mit_loop a rest (num_mit + 1))
      | _ \<Rightarrow>
          (if \<not> is_etp out \<and> \<not> is_message out then None
           else asset_mit_loop a rest num_mit))"

definition check_asset_mit :: "transaction \<Rightarrow> aggregates \<Rightarrow> bool" where
  "check_asset_mit tx a =
     (case asset_mit_loop a (outputs tx) 0 of None \<Rightarrow> False | Some num_mit \<Rightarrow> num_mit = 1)"


subsection \<open>The validator object and the pipeline over the inputs\<close>

text \<open>
  The members of \<^verbatim>\<open>validate_transaction\<close> that a run changes. A call of the handler
  is the pair of the code and the index list it is given (the transaction it is given is
  always the one under validation).
\<close>

record vstate =
  st_last_block_height :: uint64
  st_current_input :: nat
  st_aggregates :: aggregates
  st_unconfirmed :: "nat list"

type_synonym handler_call = "code \<times> nat list"

text \<open>\<^verbatim>\<open>check_fees\<close> (lines 272 to 324): the list of the handler calls it makes.\<close>

definition check_fees :: "env \<Rightarrow> transaction \<Rightarrow> vstate \<Rightarrow> handler_call list" where
  "check_fees e tx st =
     (let a = st_aggregates st;
          is_asset_type = (business_kind_in a = asset_issue
                            \<or> business_kind_in a = asset_transfer);
          is_did_type = (business_kind_in a = did_register
                          \<or> business_kind_in a = did_transfer)
      in
      if \<not> fst (tally_fees e tx (value_in a) 0) then [(fees_out_of_range, [])]
      else if is_asset_type \<and> has_asset_transfer tx \<and> \<not> check_asset_amount tx a
      then [(asset_amount_not_equal, [])]
      else if is_asset_type \<and> has_asset_transfer tx \<and> \<not> check_asset_symbol tx a
      then [(asset_symbol_not_match, [])]
      else if \<not> is_asset_type \<and> business_kind_in a = asset_cert
                \<and> \<not> check_asset_certs e tx a
      then [(asset_cert_error, [])]
      else if \<not> is_asset_type \<and> business_kind_in a \<noteq> asset_cert
                \<and> business_kind_in a = asset_mit \<and> \<not> check_asset_mit tx a
      then [(mit_error, [])]
      else if is_did_type \<and> has_did_transfer tx \<and> \<not> check_did_symbol_match tx a
      then [(did_symbol_not_match, [])]
      else [(success, st_unconfirmed st)])"

text \<open>
  One pass of the callback chain \<^verbatim>\<open>next_previous_transaction\<close>,
  \<^verbatim>\<open>previous_tx_index\<close>, \<^verbatim>\<open>search_pool_previous_tx\<close>, \<^verbatim>\<open>handle_previous_tx\<close>,
  \<^verbatim>\<open>check_double_spend\<close>. The store is read synchronously (section 9 of the
  specification allows this translation). A step is \<open>Inl\<close> of the handler call that ends
  the run, or \<open>Inr\<close> of the validator's state when the chain goes on.
\<close>

definition check_double_spend :: "vstate \<Rightarrow> code \<Rightarrow> handler_call + vstate" where
  "check_double_spend st ec =
     (if ec \<noteq> unspent_output then Inl (double_spend, [])
      else Inr (st\<lparr>st_current_input := st_current_input st + 1\<rparr>))"

definition handle_previous_tx ::
  "env \<Rightarrow> chain \<Rightarrow> transaction \<Rightarrow> vstate \<Rightarrow> code \<Rightarrow> transaction \<Rightarrow> uint64
     \<Rightarrow> handler_call + vstate" where
  "handle_previous_tx e ch tx st ec previous_tx parent_height =
     (if ec \<noteq> success then Inl (input_not_found, [st_current_input st])
      else
        case connect_input e tx (st_current_input st) previous_tx parent_height
               (st_last_block_height st) (all_enabled e) (st_aggregates st) of
          (False, a) \<Rightarrow> Inl (validate_inputs_failed, [st_current_input st])
        | (True, a) \<Rightarrow>
            check_double_spend (st\<lparr>st_aggregates := a\<rparr>)
              (fetch_spend ch (previous_output (inputs tx ! st_current_input st))))"

text \<open>
  \<^verbatim>\<open>search_pool_previous_tx\<close> records the input as unconfirmed after
  \<^verbatim>\<open>handle_previous_tx\<close> has returned, that is, with the index of the input it has
  just connected.
\<close>

definition search_pool_previous_tx ::
  "env \<Rightarrow> chain \<Rightarrow> pool \<Rightarrow> transaction \<Rightarrow> vstate \<Rightarrow> handler_call + vstate" where
  "search_pool_previous_tx e ch pl tx st =
     (case pool_find pl (point_hash (previous_output (inputs tx ! st_current_input st))) of
        None \<Rightarrow> Inl (input_not_found, [st_current_input st])
      | Some previous_tx \<Rightarrow>
          (case handle_previous_tx e ch tx st success previous_tx 0 of
             Inl v \<Rightarrow> Inl v
           | Inr st' \<Rightarrow> Inr (st'\<lparr>st_unconfirmed := st_unconfirmed st' @ [st_current_input st]\<rparr>)))"

definition previous_tx_index ::
  "env \<Rightarrow> chain \<Rightarrow> pool \<Rightarrow> transaction \<Rightarrow> vstate \<Rightarrow> code \<Rightarrow> uint64
     \<Rightarrow> handler_call + vstate" where
  "previous_tx_index e ch pl tx st ec parent_height =
     (if ec \<noteq> success then search_pool_previous_tx e ch pl tx st
      else
        let prev_tx_hash = point_hash (previous_output (inputs tx ! st_current_input st));
            fetched = fetch_transaction ch prev_tx_hash
        in handle_previous_tx e ch tx st (fst fetched) (snd fetched) parent_height)"

definition connect_current_input ::
  "env \<Rightarrow> chain \<Rightarrow> pool \<Rightarrow> transaction \<Rightarrow> vstate \<Rightarrow> handler_call + vstate" where
  "connect_current_input e ch pl tx st =
     (let fetched = fetch_transaction_index ch
                      (point_hash (previous_output (inputs tx ! st_current_input st)))
      in previous_tx_index e ch pl tx st (fst fetched) (snd fetched))"

text \<open>
  \<^verbatim>\<open>next_previous_transaction\<close> with the test at the end of
  \<^verbatim>\<open>check_double_spend\<close>: the input at \<^verbatim>\<open>current_input_\<close> is connected, and the
  chain goes on to the next input while there is one. The result is \<open>Inr\<close> of the state
  in which \<^verbatim>\<open>check_fees\<close> is then called.
\<close>

function next_previous_transaction ::
  "env \<Rightarrow> chain \<Rightarrow> pool \<Rightarrow> transaction \<Rightarrow> vstate \<Rightarrow> handler_call + vstate" where
  "next_previous_transaction e ch pl tx st =
     (case connect_current_input e ch pl tx st of
        Inl v \<Rightarrow> Inl v
      | Inr st' \<Rightarrow>
          if st_current_input st' < length (inputs tx)
          then next_previous_transaction e ch pl tx st'
          else Inr st')"
  by pat_completeness auto
termination
proof (relation "measure (\<lambda>(e, ch, pl, tx, st). length (inputs tx) - st_current_input st)")
  show "wf (measure (\<lambda>(e, ch, pl, tx, st). length (inputs tx) - st_current_input st))"
    by simp
next
  fix e ch pl tx st st'
  assume step: "connect_current_input e ch pl tx st = Inr st'"
    and more: "st_current_input st' < length (inputs tx)"
  have double: "st_current_input s' = Suc (st_current_input s)"
    if "check_double_spend s ec = Inr s'" for s s' ec
    using that by (auto simp: check_double_spend_def split: if_splits)
  have handle: "st_current_input s' = Suc (st_current_input s)"
    if "handle_previous_tx e ch tx s ec ptx h = Inr s'" for s s' ec ptx h
    using that
    by (auto simp: handle_previous_tx_def split: if_splits prod.splits bool.splits
             dest!: double)
  have search: "st_current_input s' = Suc (st_current_input s)"
    if "search_pool_previous_tx e ch pl tx s = Inr s'" for s s'
    using that
    by (auto simp: search_pool_previous_tx_def split: option.splits sum.splits
             dest!: handle)
  have "st_current_input st' = Suc (st_current_input st)"
    using step
    by (auto simp: connect_current_input_def previous_tx_index_def Let_def
             split: if_splits dest!: handle search)
  with more
  show "((e, ch, pl, tx, st'), (e, ch, pl, tx, st))
          \<in> measure (\<lambda>(e, ch, pl, tx, st). length (inputs tx) - st_current_input st)"
    by simp
qed

declare next_previous_transaction.simps [simp del]

definition initial_aggregates :: aggregates where
  "initial_aggregates =
     \<lparr>value_in = 0, asset_amount_in = 0, asset_certs_in = [],
      old_symbol_in = [], new_symbol_in = [], business_kind_in = etp\<rparr>"

text \<open>
  The members as \<^verbatim>\<open>set_last_height\<close> sets them before the first input (lines 155
  to 162).
\<close>

definition begin_inputs :: "vstate \<Rightarrow> uint64 \<Rightarrow> vstate" where
  "begin_inputs st last_height =
     st\<lparr>st_last_block_height := last_height, st_current_input := 0,
        st_aggregates := initial_aggregates\<rparr>"

text \<open>
  \<^verbatim>\<open>set_last_height\<close> (lines 145 to 167). With an empty input list it returns
  without a call of the handler.
\<close>

definition set_last_height ::
  "env \<Rightarrow> chain \<Rightarrow> pool \<Rightarrow> transaction \<Rightarrow> vstate \<Rightarrow> code \<Rightarrow> uint64 \<Rightarrow> handler_call list" where
  "set_last_height e ch pl tx st ec last_height =
     (if ec \<noteq> success then [(ec, [])]
      else if inputs tx \<noteq> [] then
        (case next_previous_transaction e ch pl tx (begin_inputs st last_height) of
           Inl v \<Rightarrow> [v]
         | Inr st2 \<Rightarrow> check_fees e tx st2)
      else [])"

definition handle_duplicate_check ::
  "env \<Rightarrow> chain \<Rightarrow> pool \<Rightarrow> transaction \<Rightarrow> vstate \<Rightarrow> code \<Rightarrow> handler_call list" where
  "handle_duplicate_check e ch pl tx st ec =
     (if ec \<noteq> not_found then [(duplicate, [])]
      else if is_spent_in_pool pl tx then [(double_spend, [])]
      else set_last_height e ch pl tx st (fst (fetch_last_height ch))
             (snd (fetch_last_height ch)))"


subsection \<open>Loops with early return\<close>

text \<open>
  A pass of a loop body either goes on with the updated locals, returns from the
  enclosing function, or throws. \<open>run_loop\<close> is the \<^verbatim>\<open>for\<close> loop over a vector.
\<close>

datatype ('r, 's) flow = Continue 's | Return 'r | Throw exn

fun run_loop :: "('a \<Rightarrow> 's \<Rightarrow> ('r, 's) flow) \<Rightarrow> 'a list \<Rightarrow> 's \<Rightarrow> ('r, 's) flow" where
  "run_loop body [] s = Continue s"
| "run_loop body (x # xs) s =
     (case body x s of
        Continue s' \<Rightarrow> run_loop body xs s'
      | Return r \<Rightarrow> Return r
      | Throw x \<Rightarrow> Throw x)"

text \<open>
  \<^verbatim>\<open>check_same\<close> (lines 326 to 335) returns its verdict and \<^verbatim>\<open>dest\<close> as it
  leaves it.
\<close>

definition check_same :: "string \<Rightarrow> string \<Rightarrow> bool \<times> string" where
  "check_same dest src =
     (if dest = [] then (True, src)
      else if dest \<noteq> src then (False, dest)
      else (True, dest))"

subsection \<open>Nova activation and the basic checks\<close>

text \<open>
  \<^verbatim>\<open>is_nova_feature_activated\<close> (lines 1480 to 1491). The height stays at its
  initial 0 when the chain cannot give it.
\<close>

definition is_nova_feature_activated :: "chain \<Rightarrow> bool" where
  "is_nova_feature_activated ch =
     (if use_testnet_rules ch then True
      else
        let current_blockheight = (case get_last_height ch of None \<Rightarrow> 0 | Some h \<Rightarrow> h)
        in current_blockheight > 1270000)"

text \<open>The loop over the output values (lines 1047 to 1058): true where it overflows.\<close>

fun output_value_overflows :: "env \<Rightarrow> tx_output list \<Rightarrow> uint64 \<Rightarrow> bool" where
  "output_value_overflows e [] total_output = False"
| "output_value_overflows e (out # rest) total_output =
     (if output_value out > max_money e then True
      else if total_output + output_value out > max_money e then True
      else output_value_overflows e rest (total_output + output_value out))"

text \<open>
  A loop whose body only checks: the first code other than \<open>success\<close> that a pass
  returns, or \<open>success\<close> when every pass goes through.
\<close>

fun first_error :: "('a \<Rightarrow> code) \<Rightarrow> 'a list \<Rightarrow> code" where
  "first_error body [] = success"
| "first_error body (x # xs) =
     (if body x \<noteq> success then body x else first_error body xs)"

text \<open>The body of the loop over the outputs at lines 1060 to 1091.\<close>

definition check_output_symbols :: "env \<Rightarrow> chain \<Rightarrow> transaction \<Rightarrow> tx_output \<Rightarrow> code" where
  "check_output_symbols e ch tx out =
     (if is_asset_issue out \<and> \<not> is_valid_symbol e (get_asset_symbol out) (version tx)
      then asset_symbol_invalid
      else if \<not> is_asset_issue out \<and> is_asset_cert out
                \<and> \<not> is_did_exist ch (get_asset_cert_owner out)
      then did_address_needed
      else if \<not> is_asset_issue out \<and> \<not> is_asset_cert out \<and> is_did_register out
                \<and> \<not> is_valid_did_symbol e (get_did_symbol out) (\<not> use_testnet_rules ch)
      then did_symbol_invalid
      else if \<not> is_asset_issue out \<and> \<not> is_asset_cert out \<and> \<not> is_did_register out
                \<and> is_asset_mit_register out
                \<and> \<not> is_valid_mit_symbol e (get_asset_symbol out) True
      then mit_symbol_invalid
      else if version tx \<ge> check_nova_feature e \<and> \<not> attachment_is_valid e (attach_data out)
      then attachment_invalid
      else success)"

text \<open>The body of the loop over the inputs at lines 1102 to 1122.\<close>

definition check_input_lock_height :: "env \<Rightarrow> chain \<Rightarrow> input \<Rightarrow> code" where
  "check_input_lock_height e ch i =
     (if point_is_null e (previous_output i) then previous_output_null
      else if is_sign_key_hash_with_lock_height_pattern (input_script i) then
        (let current_blockheight = (case get_last_height ch of None \<Rightarrow> 0 | Some h \<Rightarrow> h) in
         case get_transaction ch (point_hash (previous_output i)) of
           None \<Rightarrow> input_not_found
         | Some (prev_tx, prev_output_blockheight) \<Rightarrow>
             if lock_height_of (input_script i) > current_blockheight - prev_output_blockheight
             then invalid_input_script_lock_height
             else success)
      else success)"

text \<open>
  The body of the loop over the outputs at lines 1124 to 1133. The cast
  \<^verbatim>\<open>(int)lock_height\<close> keeps the low 32 bits, read as a signed value.
\<close>

definition check_output_lock_height :: "env \<Rightarrow> tx_output \<Rightarrow> code" where
  "check_output_lock_height e out =
     (if is_pay_key_hash_with_lock_height_pattern (output_script out)
           \<and> (sint (ucast (lock_height_of (output_script out)) :: uint32) < 0
                \<or> get_lock_heights_index e (lock_height_of (output_script out)) < 0)
      then invalid_output_script_lock_height
      else success)"

text \<open>\<^verbatim>\<open>check_transaction_basic\<close> (lines 1016 to 1147).\<close>

definition check_transaction_basic :: "env \<Rightarrow> chain \<Rightarrow> transaction \<Rightarrow> code" where
  "check_transaction_basic e ch tx =
     (if version tx \<ge> max_version e then transaction_version_error
      else if version tx = check_nova_feature e \<and> \<not> is_nova_feature_activated ch
      then nova_feature_not_activated
      else if version tx = check_nova_testnet e \<and> \<not> use_testnet_rules ch
      then transaction_version_error
      else if version tx \<ge> check_output_script e
                \<and> list_ex (\<lambda>out. pattern_non_standard (output_script out)) (outputs tx)
      then script_not_standard
      else if inputs tx = [] \<or> outputs tx = [] then empty_transaction
      else if serialized_size e tx > max_transaction_size then size_limits
      else if output_value_overflows e (outputs tx) 0 then output_value_overflow
      else if first_error (check_output_symbols e ch tx) (outputs tx) \<noteq> success
      then first_error (check_output_symbols e ch tx) (outputs tx)
      else if is_coinbase e tx then
        (let coinbase_size = script_serialized_size (input_script (inputs tx ! 0)) in
         if coinbase_size < 2 \<or> coinbase_size > 100 then invalid_coinbase_script_size
         else success)
      else if first_error (check_input_lock_height e ch) (inputs tx) \<noteq> success
      then first_error (check_input_lock_height e ch) (inputs tx)
      else if first_error (check_output_lock_height e) (outputs tx) \<noteq> success
      then first_error (check_output_lock_height e) (outputs tx)
      else if version tx \<ge> check_nova_feature e
      then check_model_param_tx e tx ch
      else success)"

subsection \<open>Asset issue\<close>

record issue_locals =
  ai_is_asset_issue :: bool
  ai_num_asset_cert_issue :: int
  ai_num_asset_cert_domain_or_naming :: int
  ai_cert_mask :: "asset_cert_type list"
  ai_cert_type :: "asset_cert_type list"
  ai_asset_symbol :: string
  ai_asset_address :: string
  ai_cert_owner :: string

text \<open>The body of the loop of \<^verbatim>\<open>check_asset_issue_transaction\<close> (lines 510 to 607).\<close>

definition asset_issue_output ::
  "env \<Rightarrow> chain \<Rightarrow> tx_output \<Rightarrow> issue_locals \<Rightarrow> (code, issue_locals) flow" where
  "asset_issue_output e ch out s =
     (case kind_of out of
        attach_asset_issue detail \<Rightarrow>
          if ai_is_asset_issue s then Return asset_issue_error
          else if \<not> is_secondaryissue_threshold_value_ok e detail
          then Return asset_secondaryissue_threshold_invalid
          else
            (case check_same (ai_asset_symbol s) (detail_symbol detail) of
               (False, symbol1) \<Rightarrow> Return asset_issue_error
             | (True, symbol1) \<Rightarrow>
                 (case check_same (ai_asset_address s) (detail_address detail) of
                    (False, address1) \<Rightarrow> Return asset_issue_error
                  | (True, address1) \<Rightarrow>
                      if is_asset_exist ch symbol1 False then Return asset_exist
                      else if is_pay_key_hash_with_attenuation_model_pattern (output_script out)
                                \<and> \<not> check_model_param e
                                      (attenuation_model_param (output_script out))
                                      (maximum_supply detail)
                      then Return attenuation_model_param_error
                      else Continue (s\<lparr>ai_is_asset_issue := True,
                                       ai_asset_symbol := symbol1,
                                       ai_asset_address := address1,
                                       ai_cert_mask := asset_cert_mask detail\<rparr>)))
      | attach_asset_cert cert_info \<Rightarrow>
          (case cert_type cert_info of
             cert_issue \<Rightarrow>
               if ai_num_asset_cert_issue s + 1 > 1 then Return asset_issue_error
               else
                 (case check_same (ai_asset_symbol s) (cert_symbol cert_info) of
                    (False, symbol1) \<Rightarrow> Return asset_issue_error
                  | (True, symbol1) \<Rightarrow>
                      (case check_same (ai_asset_address s) (get_script_address out) of
                         (False, address1) \<Rightarrow> Return asset_issue_error
                       | (True, address1) \<Rightarrow>
                           Continue (s\<lparr>ai_num_asset_cert_issue :=
                                          ai_num_asset_cert_issue s + 1,
                                        ai_asset_symbol := symbol1,
                                        ai_asset_address := address1,
                                        ai_cert_type := ai_cert_type s @ [cert_issue]\<rparr>)))
           | cert_domain \<Rightarrow>
               if ai_num_asset_cert_domain_or_naming s + 1 > 1 then Return asset_issue_error
               else if ai_asset_symbol s \<noteq> []
                         \<and> get_domain (ai_asset_symbol s) \<noteq> cert_symbol cert_info
               then Return asset_issue_error
               else
                 (case check_same (ai_cert_owner s) (cert_owner cert_info) of
                    (False, owner1) \<Rightarrow> Return asset_issue_error
                  | (True, owner1) \<Rightarrow>
                      Continue (s\<lparr>ai_num_asset_cert_domain_or_naming :=
                                     ai_num_asset_cert_domain_or_naming s + 1,
                                   ai_cert_owner := owner1,
                                   ai_cert_type := ai_cert_type s @ [cert_domain]\<rparr>))
           | cert_naming \<Rightarrow>
               if ai_num_asset_cert_domain_or_naming s + 1 > 1 then Return asset_issue_error
               else
                 (case check_same (ai_asset_symbol s) (cert_symbol cert_info) of
                    (False, symbol1) \<Rightarrow> Return asset_issue_error
                  | (True, symbol1) \<Rightarrow>
                      (case check_same (ai_cert_owner s) (cert_owner cert_info) of
                         (False, owner1) \<Rightarrow> Return asset_issue_error
                       | (True, owner1) \<Rightarrow>
                           Continue (s\<lparr>ai_num_asset_cert_domain_or_naming :=
                                          ai_num_asset_cert_domain_or_naming s + 1,
                                        ai_asset_symbol := symbol1,
                                        ai_cert_owner := owner1,
                                        ai_cert_type := ai_cert_type s @ [cert_naming]\<rparr>)))
           | _ \<Rightarrow> Return asset_issue_error)
      | _ \<Rightarrow>
          if \<not> is_etp out \<and> \<not> is_message out then Return asset_issue_error
          else Continue s)"

text \<open>
  \<^verbatim>\<open>check_asset_issue_transaction\<close> (lines 488 to 634). A function that can leave
  by an exception returns \<open>Inl\<close> of the exception, otherwise \<open>Inr\<close> of its value.
\<close>

definition check_asset_issue_transaction ::
  "env \<Rightarrow> chain \<Rightarrow> transaction \<Rightarrow> exn + code" where
  "check_asset_issue_transaction e ch tx =
     (if \<not> list_ex is_asset_issue (outputs tx) then Inr success
      else
        case run_loop (asset_issue_output e ch) (outputs tx)
               \<lparr>ai_is_asset_issue = False, ai_num_asset_cert_issue = 0,
                ai_num_asset_cert_domain_or_naming = 0, ai_cert_mask = [],
                ai_cert_type = [], ai_asset_symbol = [], ai_asset_address = [],
                ai_cert_owner = []\<rparr> of
          Throw x \<Rightarrow> Inl x
        | Return ec \<Rightarrow> Inr ec
        | Continue s \<Rightarrow>
            if version tx \<ge> check_nova_feature e then
              (if \<not> test_certs_all (ai_cert_type s) (ai_cert_mask s)
               then Inr asset_issue_error
               else if is_valid_domain e (get_domain (ai_asset_symbol s))
                         \<and> ai_cert_owner s = []
               then Inr asset_cert_error
               else if is_valid_domain e (get_domain (ai_asset_symbol s))
                         \<and> ai_num_asset_cert_domain_or_naming s < 1
               then Inr asset_cert_not_provided
               else Inr success)
            else Inr success)"


subsection \<open>Asset cert issue\<close>

record cert_issue_locals =
  ci_num_asset_cert_issue :: int
  ci_num_asset_cert_domain :: int
  ci_issue_cert_type :: asset_cert_type
  ci_cert_type :: "asset_cert_type list"
  ci_cert_symbol :: string
  ci_cert_owner :: string

text \<open>The body of the loop of \<^verbatim>\<open>check_asset_cert_issue_transaction\<close> (lines 658 to 736).\<close>

definition asset_cert_issue_output ::
  "chain \<Rightarrow> tx_output \<Rightarrow> cert_issue_locals \<Rightarrow> (code, cert_issue_locals) flow" where
  "asset_cert_issue_output ch out s =
     (case kind_of out of
        attach_asset_cert_issue cert_info \<Rightarrow>
          if ci_num_asset_cert_issue s + 1 > 1 then Return asset_cert_issue_error
          else
            (case check_same (ci_cert_symbol s) (cert_symbol cert_info) of
               (False, symbol1) \<Rightarrow> Return asset_cert_issue_error
             | (True, symbol1) \<Rightarrow>
                 if is_asset_cert_exist ch symbol1 (cert_type cert_info)
                 then Return asset_cert_exist
                 else Continue (s\<lparr>ci_num_asset_cert_issue := ci_num_asset_cert_issue s + 1,
                                  ci_cert_symbol := symbol1,
                                  ci_issue_cert_type := cert_type cert_info\<rparr>))
      | attach_asset_cert cert_info \<Rightarrow>
          if cert_type cert_info = cert_domain then
            (if ci_issue_cert_type s \<noteq> cert_naming then Return asset_cert_issue_error
             else if ci_num_asset_cert_domain s + 1 > 1 then Return asset_cert_issue_error
             else if ci_cert_symbol s \<noteq> []
                       \<and> get_domain (ci_cert_symbol s) \<noteq> cert_symbol cert_info
             then Return asset_cert_issue_error
             else
               (case get_registered_did ch (cert_owner cert_info) of
                  None \<Rightarrow> Return asset_cert_issue_error
                | Some diddetail \<Rightarrow>
                    if cert_address cert_info \<noteq> did_detail_address diddetail
                    then Return asset_cert_issue_error
                    else Continue (s\<lparr>ci_num_asset_cert_domain :=
                                       ci_num_asset_cert_domain s + 1,
                                     ci_cert_owner := cert_owner cert_info,
                                     ci_cert_type := ci_cert_type s @ [cert_domain]\<rparr>)))
          else Return asset_cert_issue_error
      | _ \<Rightarrow>
          if \<not> is_etp out \<and> \<not> is_message out then Return asset_cert_issue_error
          else Continue s)"

text \<open>\<^verbatim>\<open>check_asset_cert_issue_transaction\<close> (lines 636 to 759).\<close>

definition check_asset_cert_issue_transaction :: "chain \<Rightarrow> transaction \<Rightarrow> exn + code" where
  "check_asset_cert_issue_transaction ch tx =
     (if \<not> list_ex is_asset_cert_issue (outputs tx) then Inr success
      else
        case run_loop (asset_cert_issue_output ch) (outputs tx)
               \<lparr>ci_num_asset_cert_issue = 0, ci_num_asset_cert_domain = 0,
                ci_issue_cert_type = cert_none, ci_cert_type = [],
                ci_cert_symbol = [], ci_cert_owner = []\<rparr> of
          Throw x \<Rightarrow> Inl x
        | Return ec \<Rightarrow> Inr ec
        | Continue s \<Rightarrow>
            if ci_issue_cert_type s = cert_none then Inr asset_cert_issue_error
            else if ci_issue_cert_type s = cert_naming
                      \<and> (\<not> test_certs (ci_cert_type s) cert_domain \<or> ci_cert_owner s = [])
            then Inr asset_cert_issue_error
            else if ci_issue_cert_type s = cert_naming
                      \<and> is_asset_exist ch (ci_cert_symbol s) False
            then Inr asset_exist
            else Inr success)"

subsection \<open>Reading the previous output of an input from the chain\<close>

text \<open>\<^verbatim>\<open>prev_tx.outputs.at(index)\<close>: the output, or the exception of \<^verbatim>\<open>at\<close>.\<close>

definition outputs_at :: "transaction \<Rightarrow> uint32 \<Rightarrow> exn + tx_output" where
  "outputs_at prev_tx i =
     (if unat i < length (outputs prev_tx) then Inr (outputs prev_tx ! unat i)
      else Inl out_of_range)"

subsection \<open>Secondary issue\<close>

record secondaryissue_locals =
  si_asset_symbol :: string
  si_asset_address :: string
  si_asset_cert_owner :: string
  si_secondaryissue_threshold :: uint8
  si_secondaryissue_asset_amount :: uint64
  si_asset_transfer_volume :: uint64
  si_num_asset_secondaryissue :: int
  si_num_asset_transfer :: int
  si_num_asset_cert :: int
  si_certs_out :: "asset_cert_type list"

text \<open>The body of the loop over the outputs (lines 363 to 439).\<close>

definition secondaryissue_output ::
  "env \<Rightarrow> tx_output \<Rightarrow> secondaryissue_locals \<Rightarrow> (code, secondaryissue_locals) flow" where
  "secondaryissue_output e out s =
     (case kind_of out of
        attach_asset_secondaryissue detail \<Rightarrow>
          if si_num_asset_secondaryissue s + 1 > 1 then Return asset_secondaryissue_error
          else if \<not> detail_is_asset_secondaryissue detail
                    \<or> \<not> is_secondaryissue_threshold_value_ok e detail
          then Return asset_secondaryissue_threshold_invalid
          else
            (case check_same (si_asset_symbol s) (detail_symbol detail) of
               (False, symbol1) \<Rightarrow> Return asset_secondaryissue_error
             | (True, symbol1) \<Rightarrow>
                 (case check_same (si_asset_address s) (detail_address detail) of
                    (False, address1) \<Rightarrow> Return asset_secondaryissue_error
                  | (True, address1) \<Rightarrow>
                      if is_pay_key_hash_with_attenuation_model_pattern (output_script out)
                           \<and> \<not> check_model_param e
                                 (attenuation_model_param (output_script out))
                                 (maximum_supply detail)
                      then Return attenuation_model_param_error
                      else Continue
                             (s\<lparr>si_num_asset_secondaryissue :=
                                   si_num_asset_secondaryissue s + 1,
                                 si_asset_symbol := symbol1,
                                 si_asset_address := address1,
                                 si_secondaryissue_threshold :=
                                   secondaryissue_threshold detail,
                                 si_secondaryissue_asset_amount := maximum_supply detail\<rparr>)))
      | attach_asset_transfer transfer \<Rightarrow>
          (case check_same (si_asset_symbol s) (transfer_symbol transfer) of
             (False, symbol1) \<Rightarrow> Return asset_secondaryissue_error
           | (True, symbol1) \<Rightarrow>
               (case check_same (si_asset_address s) (get_script_address out) of
                  (False, address1) \<Rightarrow> Return asset_secondaryissue_error
                | (True, address1) \<Rightarrow>
                    Continue (s\<lparr>si_num_asset_transfer := si_num_asset_transfer s + 1,
                                 si_asset_symbol := symbol1,
                                 si_asset_address := address1,
                                 si_asset_transfer_volume :=
                                   si_asset_transfer_volume s + quantity transfer\<rparr>)))
      | attach_asset_cert cert_info \<Rightarrow>
          if si_num_asset_cert s + 1 > 1 then Return asset_secondaryissue_error
          else if cert_type cert_info = cert_issue then
            (case check_same (si_asset_symbol s) (cert_symbol cert_info) of
               (False, symbol1) \<Rightarrow> Return asset_secondaryissue_error
             | (True, symbol1) \<Rightarrow>
                 (case check_same (si_asset_cert_owner s) (cert_owner cert_info) of
                    (False, owner1) \<Rightarrow> Return asset_secondaryissue_error
                  | (True, owner1) \<Rightarrow>
                      Continue (s\<lparr>si_num_asset_cert := si_num_asset_cert s + 1,
                                   si_asset_symbol := symbol1,
                                   si_asset_cert_owner := owner1,
                                   si_certs_out := si_certs_out s @ [cert_issue]\<rparr>)))
          else Return asset_secondaryissue_error
      | _ \<Rightarrow>
          if \<not> is_etp out \<and> \<not> is_message out then Return asset_secondaryissue_error
          else Continue s)"

text \<open>The body of the loop over the inputs (lines 461 to 483).\<close>

definition secondaryissue_input ::
  "chain \<Rightarrow> string \<Rightarrow> string \<Rightarrow> input \<Rightarrow> unit \<Rightarrow> (code, unit) flow" where
  "secondaryissue_input ch asset_symbol asset_address i u =
     (case get_transaction ch (point_hash (previous_output i)) of
        None \<Rightarrow> Return input_not_found
      | Some (prev_tx, prev_height) \<Rightarrow>
          (case outputs_at prev_tx (point_index (previous_output i)) of
             Inl x \<Rightarrow> Throw x
           | Inr prev_output \<Rightarrow>
               if is_asset prev_output \<or> is_asset_cert prev_output then
                 (if is_asset_cert prev_output then
                    (if get_asset_cert_symbol prev_output \<noteq> asset_symbol
                          \<or> get_asset_cert_type prev_output \<noteq> cert_issue
                     then Return validate_inputs_failed
                     else Continue ())
                  else if asset_address \<noteq> get_script_address prev_output
                  then Return validate_inputs_failed
                  else Continue ())
               else Continue ()))"

definition secondaryissue_initial :: secondaryissue_locals where
  "secondaryissue_initial =
     \<lparr>si_asset_symbol = [], si_asset_address = [], si_asset_cert_owner = [],
      si_secondaryissue_threshold = 0, si_secondaryissue_asset_amount = 0,
      si_asset_transfer_volume = 0, si_num_asset_secondaryissue = 0,
      si_num_asset_transfer = 0, si_num_asset_cert = 0, si_certs_out = []\<rparr>"

text \<open>
  The part of \<^verbatim>\<open>check_secondaryissue_transaction\<close> after the loop over the outputs
  (lines 441 to 485), from the locals the loop has left.
\<close>

definition secondaryissue_volume_checks ::
  "env \<Rightarrow> chain \<Rightarrow> transaction \<Rightarrow> secondaryissue_locals \<Rightarrow> exn + code" where
  "secondaryissue_volume_checks e ch tx s =
     (if version tx \<ge> check_nova_feature e \<and> \<not> test_certs (si_certs_out s) cert_issue
      then Inr asset_cert_error
      else
        let total_volume = get_asset_volume ch (si_asset_symbol s) in
        if total_volume > max_uint64 - si_secondaryissue_asset_amount s
        then Inr asset_secondaryissue_error
        else if \<not> is_secondaryissue_owns_enough e (si_asset_transfer_volume s) total_volume
                     (si_secondaryissue_threshold s)
        then Inr asset_secondaryissue_share_not_enough
        else
          case run_loop (secondaryissue_input ch (si_asset_symbol s) (si_asset_address s))
                 (inputs tx) () of
            Throw x \<Rightarrow> Inl x
          | Return ec \<Rightarrow> Inr ec
          | Continue u \<Rightarrow> Inr success)"

text \<open>\<^verbatim>\<open>check_secondaryissue_transaction\<close> (lines 337 to 486).\<close>

definition check_secondaryissue_transaction ::
  "env \<Rightarrow> chain \<Rightarrow> transaction \<Rightarrow> exn + code" where
  "check_secondaryissue_transaction e ch tx =
     (if \<not> list_ex is_asset_secondaryissue (outputs tx) then Inr success
      else
        case run_loop (secondaryissue_output e) (outputs tx) secondaryissue_initial of
          Throw x \<Rightarrow> Inl x
        | Return ec \<Rightarrow> Inr ec
        | Continue s \<Rightarrow> secondaryissue_volume_checks e ch tx s)"

subsection \<open>MIT register\<close>

text \<open>
  The bodies of the two loops of \<^verbatim>\<open>check_asset_mit_register_transaction\<close>; the
  locals of the first are \<^verbatim>\<open>asset_symbol\<close> and \<^verbatim>\<open>asset_address\<close>.
\<close>

definition mit_register_output ::
  "chain \<Rightarrow> tx_output \<Rightarrow> string \<times> string \<Rightarrow> (code, string \<times> string) flow" where
  "mit_register_output ch out s =
     (case kind_of out of
        attach_asset_mit_register asset_info \<Rightarrow>
          (case check_same (snd s) (mit_address asset_info) of
             (False, address1) \<Rightarrow> Return mit_exist
           | (True, address1) \<Rightarrow>
               (case get_registered_mit ch (mit_symbol asset_info) of
                  Some registered \<Rightarrow> Return mit_exist
                | None \<Rightarrow> Continue (mit_symbol asset_info, address1)))
      | _ \<Rightarrow>
          if \<not> is_etp out \<and> \<not> is_message out then Return mit_register_error
          else Continue s)"

definition mit_register_input ::
  "chain \<Rightarrow> string \<Rightarrow> input \<Rightarrow> unit \<Rightarrow> (code, unit) flow" where
  "mit_register_input ch asset_address i u =
     (case get_transaction ch (point_hash (previous_output i)) of
        None \<Rightarrow> Return input_not_found
      | Some (prev_tx, prev_height) \<Rightarrow>
          (case outputs_at prev_tx (point_index (previous_output i)) of
             Inl x \<Rightarrow> Throw x
           | Inr prev_output \<Rightarrow>
               if is_etp prev_output \<and> asset_address \<noteq> get_script_address prev_output
               then Return validate_inputs_failed
               else Continue ()))"

text \<open>\<^verbatim>\<open>check_asset_mit_register_transaction\<close> (lines 761 to 824).\<close>

definition check_asset_mit_register_transaction :: "chain \<Rightarrow> transaction \<Rightarrow> exn + code" where
  "check_asset_mit_register_transaction ch tx =
     (if \<not> list_ex is_asset_mit_register (outputs tx) then Inr success
      else
        case run_loop (mit_register_output ch) (outputs tx) ([], []) of
          Throw x \<Rightarrow> Inl x
        | Return ec \<Rightarrow> Inr ec
        | Continue s \<Rightarrow>
            (case run_loop (mit_register_input ch (snd s)) (inputs tx) () of
               Throw x \<Rightarrow> Inl x
             | Return ec \<Rightarrow> Inr ec
             | Continue u \<Rightarrow> Inr success))"


subsection \<open>DID\<close>

text \<open>
  The body of the loop of \<^verbatim>\<open>connect_did_input\<close> (lines 927 to 949); its locals are
  \<^verbatim>\<open>found_did_info\<close> and \<^verbatim>\<open>found_address_info\<close>.
\<close>

definition did_input ::
  "chain \<Rightarrow> did \<Rightarrow> input \<Rightarrow> bool \<times> bool \<Rightarrow> (bool, bool \<times> bool) flow" where
  "did_input ch info i found =
     (case get_transaction ch (point_hash (previous_output i)) of
        None \<Rightarrow> Return False
      | Some (prev_tx, prev_height) \<Rightarrow>
          (case outputs_at prev_tx (point_index (previous_output i)) of
             Inl x \<Rightarrow> Throw x
           | Inr prev_output \<Rightarrow>
               if is_did_register prev_output \<or> is_did_transfer prev_output then
                 (if did_get_status info = DID_TRANSFERABLE_TYPE
                       \<and> did_detail_symbol (did_get_data info) = get_did_symbol prev_output
                  then Continue (True, snd found)
                  else Continue found)
               else if is_etp prev_output
                         \<and> did_detail_address (did_get_data info)
                              = get_script_address prev_output
               then Continue (fst found, True)
               else Continue found))"

text \<open>\<^verbatim>\<open>connect_did_input\<close> (lines 915 to 953).\<close>

definition connect_did_input :: "chain \<Rightarrow> transaction \<Rightarrow> did \<Rightarrow> exn + bool" where
  "connect_did_input ch tx info =
     (if did_get_status info = DID_TRANSFERABLE_TYPE \<and> length (inputs tx) \<noteq> 2
      then Inr False
      else
        case run_loop (did_input ch info) (inputs tx) (False, False) of
          Throw x \<Rightarrow> Inl x
        | Return r \<Rightarrow> Inr r
        | Continue (found_did_info, found_address_info) \<Rightarrow>
            Inr ((found_did_info \<and> found_address_info
                    \<and> did_get_status info = DID_TRANSFERABLE_TYPE)
                 \<or> (found_address_info \<and> did_get_status info = DID_DETAIL_TYPE)))"

text \<open>The body of the loop of \<^verbatim>\<open>connect_input_address_match_did\<close> (lines 967 to 980).\<close>

definition address_match_did_input ::
  "chain \<Rightarrow> string \<Rightarrow> input \<Rightarrow> unit \<Rightarrow> (bool, unit) flow" where
  "address_match_did_input ch from_did_arg i u =
     (case get_transaction ch (point_hash (previous_output i)) of
        None \<Rightarrow> Return False
      | Some (prev_tx, prev_height) \<Rightarrow>
          (case outputs_at prev_tx (point_index (previous_output i)) of
             Inl x \<Rightarrow> Throw x
           | Inr prev_output \<Rightarrow>
               if from_did_arg = get_did_from_address ch (get_script_address prev_output)
               then Return True
               else Continue ()))"

text \<open>\<^verbatim>\<open>connect_input_address_match_did\<close> (lines 955 to 984).\<close>

definition connect_input_address_match_did ::
  "chain \<Rightarrow> transaction \<Rightarrow> tx_output \<Rightarrow> exn + bool" where
  "connect_input_address_match_did ch tx out =
     (if from_did (attach_data out) = [] then Inr True
      else
        case run_loop (address_match_did_input ch (from_did (attach_data out)))
               (inputs tx) () of
          Throw x \<Rightarrow> Inl x
        | Return r \<Rightarrow> Inr r
        | Continue u \<Rightarrow> Inr False)"

text \<open>
  The body of the loop of \<^verbatim>\<open>check_did_transaction\<close> (lines 834 to 910). The local
  \<^verbatim>\<open>type\<close> starts at 255, which is neither of the two did states; it is \<open>None\<close>
  until a did output has set it. A did-register output carries a did in the state
  \<^verbatim>\<open>DID_DETAIL_TYPE\<close>, a did-transfer output one in the state
  \<^verbatim>\<open>DID_TRANSFERABLE_TYPE\<close> (section 3 of the specification).
\<close>

definition did_output ::
  "env \<Rightarrow> chain \<Rightarrow> transaction \<Rightarrow> tx_output \<Rightarrow> did_status option
     \<Rightarrow> (code, did_status option) flow" where
  "did_output e ch tx out type_local =
     (if check_attachment_address e out ch \<noteq> success
      then Return (check_attachment_address e out ch)
      else if check_attachment_did_match_address e out ch \<noteq> success
      then Return (check_attachment_did_match_address e out ch)
      else
        case connect_input_address_match_did ch tx out of
          Inl x \<Rightarrow> Throw x
        | Inr False \<Rightarrow> Return did_address_not_match
        | Inr True \<Rightarrow>
            (case kind_of out of
               attach_did_register detail \<Rightarrow>
                 if is_valid_address ch (did_detail_symbol detail)
                 then Return did_symbol_invalid
                 else if is_did_exist ch (did_detail_symbol detail) then Return did_exist
                 else if is_address_registered_did ch (did_detail_address detail)
                 then Return address_registered_did
                 else if type_local \<noteq> None then Return did_multi_type_exist
                 else
                   (case connect_did_input ch tx
                           \<lparr>did_get_status = DID_DETAIL_TYPE, did_get_data = detail\<rparr> of
                      Inl x \<Rightarrow> Throw x
                    | Inr False \<Rightarrow> Return did_input_error
                    | Inr True \<Rightarrow> Continue (Some DID_DETAIL_TYPE))
             | attach_did_transfer detail \<Rightarrow>
                 if \<not> is_did_exist ch (did_detail_symbol detail) then Return did_not_exist
                 else if is_address_registered_did ch (did_detail_address detail)
                 then Return address_registered_did
                 else if type_local \<noteq> None then Return did_multi_type_exist
                 else
                   (case connect_did_input ch tx
                           \<lparr>did_get_status = DID_TRANSFERABLE_TYPE, did_get_data = detail\<rparr> of
                      Inl x \<Rightarrow> Throw x
                    | Inr False \<Rightarrow> Return did_input_error
                    | Inr True \<Rightarrow> Continue (Some DID_TRANSFERABLE_TYPE))
             | attach_asset_issue detail \<Rightarrow>
                 if attach_version (attach_data out) = DID_ATTACH_VERIFY_VERSION e
                      \<and> get_asset_issuer out \<noteq> to_did (attach_data out)
                 then Return asset_did_registerr_not_match
                 else Continue type_local
             | attach_asset_secondaryissue detail \<Rightarrow>
                 if attach_version (attach_data out) = DID_ATTACH_VERIFY_VERSION e
                      \<and> get_asset_issuer out \<noteq> to_did (attach_data out)
                 then Return asset_did_registerr_not_match
                 else Continue type_local
             | attach_asset_cert cert_info \<Rightarrow>
                 if attach_version (attach_data out) = DID_ATTACH_VERIFY_VERSION e
                      \<and> get_asset_cert_owner out \<noteq> to_did (attach_data out)
                 then Return asset_did_registerr_not_match
                 else Continue type_local
             | _ \<Rightarrow> Continue type_local))"

text \<open>\<^verbatim>\<open>check_did_transaction\<close> (lines 826 to 913).\<close>

definition check_did_transaction :: "env \<Rightarrow> chain \<Rightarrow> transaction \<Rightarrow> exn + code" where
  "check_did_transaction e ch tx =
     (case run_loop (did_output e ch tx) (outputs tx) None of
        Throw x \<Rightarrow> Inl x
      | Return ec \<Rightarrow> Inr ec
      | Continue type_local \<Rightarrow> Inr success)"

subsection \<open>The entry point\<close>

text \<open>\<^verbatim>\<open>check_transaction\<close> (lines 986 to 1014): the six checks in order.\<close>

definition check_transaction :: "env \<Rightarrow> chain \<Rightarrow> transaction \<Rightarrow> exn + code" where
  "check_transaction e ch tx =
     (if check_transaction_basic e ch tx \<noteq> success
      then Inr (check_transaction_basic e ch tx)
      else if check_asset_issue_transaction e ch tx \<noteq> Inr success
      then check_asset_issue_transaction e ch tx
      else if check_asset_cert_issue_transaction ch tx \<noteq> Inr success
      then check_asset_cert_issue_transaction ch tx
      else if check_secondaryissue_transaction e ch tx \<noteq> Inr success
      then check_secondaryissue_transaction e ch tx
      else if check_asset_mit_register_transaction ch tx \<noteq> Inr success
      then check_asset_mit_register_transaction ch tx
      else check_did_transaction e ch tx)"

definition is_standard :: bool where
  "is_standard = True"

text \<open>\<^verbatim>\<open>basic_checks\<close> (lines 91 to 113).\<close>

definition basic_checks :: "env \<Rightarrow> chain \<Rightarrow> pool \<Rightarrow> transaction \<Rightarrow> exn + code" where
  "basic_checks e ch pl tx =
     (case check_transaction e ch tx of
        Inl x \<Rightarrow> Inl x
      | Inr ec \<Rightarrow>
          if ec \<noteq> success then Inr ec
          else if is_coinbase e tx then Inr coinbase_transaction
          else if \<not> is_standard then Inr is_not_standard
          else if is_in_pool pl (tx_hash e tx) then Inr duplicate
          else Inr success)"

text \<open>
  \<^verbatim>\<open>start\<close> (lines 66 to 89): the handler calls of a run, in order, or the exception
  that leaves \<^verbatim>\<open>start\<close>. The validator's members are not initialised by the
  constructor, so the state \<open>st\<close> in which \<^verbatim>\<open>start\<close> finds them is a parameter.
\<close>

definition start ::
  "env \<Rightarrow> chain \<Rightarrow> pool \<Rightarrow> transaction \<Rightarrow> vstate \<Rightarrow> exn + handler_call list" where
  "start e ch pl tx st =
     (case basic_checks e ch pl tx of
        Inl x \<Rightarrow> Inl x
      | Inr ec \<Rightarrow>
          if ec \<noteq> success then
            (if ec = input_not_found then Inr [(ec, [st_current_input st])]
             else Inr [(ec, [])])
          else
            Inr (handle_duplicate_check e ch pl tx st
                   (fst (fetch_transaction ch (tx_hash e tx)))))"


subsection \<open>Notions used to state the properties\<close>




text \<open>
  An input spends a did output of a symbol, or an etp output at an address, when the
  chain has its previous transaction and the output it points at is of that kind.
\<close>

definition spends_did :: "chain \<Rightarrow> string \<Rightarrow> input \<Rightarrow> bool" where
  "spends_did ch symbol i =
     (case get_transaction ch (point_hash (previous_output i)) of
        None \<Rightarrow> False
      | Some (prev_tx, prev_height) \<Rightarrow>
          (case outputs_at prev_tx (point_index (previous_output i)) of
             Inl x \<Rightarrow> False
           | Inr prev_output \<Rightarrow> is_did prev_output \<and> get_did_symbol prev_output = symbol))"

definition spends_etp_at :: "chain \<Rightarrow> string \<Rightarrow> input \<Rightarrow> bool" where
  "spends_etp_at ch address i =
     (case get_transaction ch (point_hash (previous_output i)) of
        None \<Rightarrow> False
      | Some (prev_tx, prev_height) \<Rightarrow>
          (case outputs_at prev_tx (point_index (previous_output i)) of
             Inl x \<Rightarrow> False
           | Inr prev_output \<Rightarrow>
               is_etp prev_output \<and> get_script_address prev_output = address))"

text \<open>
  Modelled from the spec: \<^verbatim>\<open>asset_detail::is_secondaryissue_owns_enough\<close> is not
  part of the sources at hand. Scenario S5 of the specification reads a threshold
  between 1 and 100 as the percentage of the chain's volume that the transfer outputs
  must hold (400000 of 1000000 is 40 percent and fails a threshold of 50). The
  sentinel thresholds are outside this definition.
\<close>

definition owns_enough_percent :: "uint64 \<Rightarrow> uint64 \<Rightarrow> uint8 \<Rightarrow> bool" where
  "owns_enough_percent own total_volume threshold =
     (unat total_volume * unat threshold \<le> unat own * 100)"

subsection \<open>A concrete chain, used to run the validator on examples\<close>

definition example_env :: env where
  "example_env =
     \<lparr>max_money = 10000000000000000, coinbase_maturity = 1000,
      check_output_script = 2, check_nova_testnet = 3, check_nova_feature = 4,
      max_version = 5, all_enabled = 4294967295, DID_ATTACH_VERIFY_VERSION = 207,
      ASSET_CERT_TRANSFER_TYPE = 3,
      tx_hash = (\<lambda>tx. case inputs tx of [] \<Rightarrow> 0
                        | i # rest \<Rightarrow> point_hash (previous_output i) + 1),
      serialized_size = (\<lambda>tx. 100 * (length (inputs tx) + length (outputs tx))),
      point_is_null = (\<lambda>p. point_hash p = 0 \<and> point_index p = - 1),
      script_verify = (\<lambda>input_script prevout_script tx i flags. True),
      is_forbidden = (\<lambda>symbol. False),
      is_valid_symbol = (\<lambda>symbol v. True),
      is_valid_did_symbol = (\<lambda>symbol strict. True),
      is_valid_mit_symbol = (\<lambda>symbol strict. True),
      is_valid_domain = (\<lambda>domain. True),
      attachment_is_valid = (\<lambda>a. True),
      check_model_param = (\<lambda>param supply. True),
      check_model_param_tx = (\<lambda>tx ch. success),
      get_lock_heights_index = (\<lambda>h. 0),
      check_attachment_address = (\<lambda>out ch. success),
      check_attachment_did_match_address = (\<lambda>out ch. success),
      is_secondaryissue_owns_enough = owns_enough_percent,
      is_secondaryissue_threshold_value_ok = (\<lambda>detail. True)\<rparr>"

definition plain_script :: "string \<Rightarrow> script" where
  "plain_script address =
     \<lparr>pattern_non_standard = False,
      is_pay_key_hash_with_attenuation_model_pattern = False,
      attenuation_model_param = [],
      is_pay_key_hash_with_lock_height_pattern = False,
      is_sign_key_hash_with_lock_height_pattern = False,
      lock_height_of = 0, script_serialized_size = 25, script_address = address\<rparr>"

definition example_output :: "uint64 \<Rightarrow> string \<Rightarrow> string \<Rightarrow> attach \<Rightarrow> tx_output" where
  "example_output v address sender att =
     \<lparr>output_value = v, output_script = plain_script address,
      attach_data = \<lparr>attach_version = 2, from_did = sender, to_did = [], attach_of = att\<rparr>\<rparr>"

definition example_input :: "hash_digest \<Rightarrow> uint32 \<Rightarrow> input" where
  "example_input h i =
     \<lparr>previous_output = \<lparr>point_hash = h, point_index = i\<rparr>,
      input_script = plain_script []\<rparr>"

text \<open>
  A chain that has confirmed the transactions of a table, each with its height, in which
  nothing is spent, no asset, cert or MIT is registered, and the only DID is ALICE.
\<close>

definition example_chain ::
  "(hash_digest \<Rightarrow> (transaction \<times> uint64) option) \<Rightarrow> uint64 \<Rightarrow> chain" where
  "example_chain confirmed height =
     \<lparr>fetch_transaction =
        (\<lambda>h. case confirmed h of
                None \<Rightarrow> (not_found, \<lparr>version = 0, inputs = [], outputs = []\<rparr>)
              | Some (t, parent) \<Rightarrow> (success, t)),
      fetch_transaction_index =
        (\<lambda>h. case confirmed h of
                None \<Rightarrow> (not_found, 0)
              | Some (t, parent) \<Rightarrow> (success, parent)),
      fetch_last_height = (success, height),
      fetch_spend = (\<lambda>p. unspent_output),
      get_transaction = confirmed,
      get_last_height = Some height,
      is_asset_exist = (\<lambda>symbol add_local. False),
      is_asset_cert_exist = (\<lambda>symbol t. False),
      get_registered_did = (\<lambda>symbol. None),
      get_registered_mit = (\<lambda>symbol. None),
      is_valid_address = (\<lambda>address. False),
      is_did_exist = (\<lambda>symbol. symbol = ''ALICE''),
      is_address_registered_did = (\<lambda>address. False),
      get_did_from_address = (\<lambda>address. []),
      get_asset_volume = (\<lambda>symbol. 1000000),
      use_testnet_rules = False\<rparr>"

definition empty_pool :: pool where
  "empty_pool =
     \<lparr>is_in_pool = (\<lambda>h. False), pool_find = (\<lambda>h. None), is_spent_in_pool = (\<lambda>tx. False)\<rparr>"

definition fresh_state :: vstate where
  "fresh_state =
     \<lparr>st_last_block_height = 0, st_current_input = 0,
      st_aggregates = initial_aggregates, st_unconfirmed = []\<rparr>"

text \<open>
  The confirmed transaction with hash 7 has one output, of the given value and kind, at
  address addr1; \<open>coinbase_tx\<close> is the same with the single null input of a coinbase.
\<close>

definition funding_tx :: "uint64 \<Rightarrow> attach \<Rightarrow> transaction" where
  "funding_tx v att =
     \<lparr>version = 2, inputs = [example_input 6 0],
      outputs = [example_output v ''addr1'' [] att]\<rparr>"

definition coinbase_tx :: "uint64 \<Rightarrow> transaction" where
  "coinbase_tx v =
     \<lparr>version = 2, inputs = [example_input 0 (- 1)],
      outputs = [example_output v ''addr1'' [] attach_etp]\<rparr>"

definition confirmed_one ::
  "transaction \<Rightarrow> uint64 \<Rightarrow> hash_digest \<Rightarrow> (transaction \<times> uint64) option" where
  "confirmed_one t parent h = (if h = 7 then Some (t, parent) else None)"

text \<open>A chain table with two confirmed transactions, of hashes 7 and 9.\<close>

definition confirmed_two ::
  "transaction \<Rightarrow> transaction \<Rightarrow> hash_digest \<Rightarrow> (transaction \<times> uint64) option" where
  "confirmed_two t1 t2 h =
     (if h = 7 then Some (t1, 100) else if h = 9 then Some (t2, 100) else None)"

text \<open>
  A transaction that transfers the DID ALICE to the address addr1, with the given
  inputs.
\<close>

definition did_transfer_tx :: "input list \<Rightarrow> transaction" where
  "did_transfer_tx ins =
     \<lparr>version = 2, inputs = ins,
      outputs = [example_output 0 ''addr1'' []
                   (attach_did_transfer
                      \<lparr>did_detail_symbol = ''ALICE'', did_detail_address = ''addr1''\<rparr>)]\<rparr>"

text \<open>A transaction that spends output \<open>i\<close> of transaction 7 into given outputs.\<close>

definition spending_tx :: "uint32 \<Rightarrow> uint32 \<Rightarrow> tx_output list \<Rightarrow> transaction" where
  "spending_tx v i outs = \<lparr>version = v, inputs = [example_input 7 i], outputs = outs\<rparr>"


section \<open>Properties\<close>

subsection \<open>Unfolding the kind predicates, and the fields of the example chain\<close>

lemmas kind_defs = is_etp_def is_message_def is_asset_issue_def
  is_asset_secondaryissue_def is_asset_transfer_def is_asset_def is_asset_cert_def
  is_asset_cert_issue_def is_asset_mit_register_def is_asset_mit_transfer_def
  is_asset_mit_def is_did_register_def is_did_transfer_def is_did_def

lemma example_tx_simps [simp]:
  "version (spending_tx v i outs) = v"
  "inputs (spending_tx v i outs) = [example_input 7 i]"
  "outputs (spending_tx v i outs) = outs"
  "version (funding_tx w att) = 2"
  "inputs (funding_tx w att) = [example_input 6 0]"
  "outputs (funding_tx w att) = [example_output w ''addr1'' [] att]"
  "version (coinbase_tx w) = 2"
  "inputs (coinbase_tx w) = [example_input 0 (- 1)]"
  "outputs (coinbase_tx w) = [example_output w ''addr1'' [] attach_etp]"
  by (simp_all add: spending_tx_def funding_tx_def coinbase_tx_def)

lemma example_input_simps [simp]:
  "point_hash (previous_output (example_input h i)) = h"
  "point_index (previous_output (example_input h i)) = i"
  "input_script (example_input h i) = plain_script []"
  by (simp_all add: example_input_def)

lemma example_output_simps [simp]:
  "output_value (example_output v address sender att) = v"
  "output_script (example_output v address sender att) = plain_script address"
  "kind_of (example_output v address sender att) = att"
  "from_did (attach_data (example_output v address sender att)) = sender"
  "to_did (attach_data (example_output v address sender att)) = []"
  "attach_version (attach_data (example_output v address sender att)) = 2"
  "get_script_address (example_output v address sender att) = address"
  by (simp_all add: example_output_def kind_of_def get_script_address_def plain_script_def)

lemma plain_script_simps [simp]:
  "pattern_non_standard (plain_script address) = False"
  "is_pay_key_hash_with_attenuation_model_pattern (plain_script address) = False"
  "is_pay_key_hash_with_lock_height_pattern (plain_script address) = False"
  "is_sign_key_hash_with_lock_height_pattern (plain_script address) = False"
  "script_serialized_size (plain_script address) = 25"
  "script_address (plain_script address) = address"
  by (simp_all add: plain_script_def)

lemma example_env_simps [simp]:
  "max_money example_env = 10000000000000000"
  "coinbase_maturity example_env = 1000"
  "check_output_script example_env = 2"
  "check_nova_testnet example_env = 3"
  "check_nova_feature example_env = 4"
  "max_version example_env = 5"
  "all_enabled example_env = 4294967295"
  "DID_ATTACH_VERIFY_VERSION example_env = 207"
  "tx_hash example_env tx
     = (case inputs tx of [] \<Rightarrow> 0 | i # rest \<Rightarrow> point_hash (previous_output i) + 1)"
  "serialized_size example_env tx = 100 * (length (inputs tx) + length (outputs tx))"
  "point_is_null example_env p = (point_hash p = 0 \<and> point_index p = - 1)"
  "script_verify example_env s1 s2 tx i32 flags = True"
  "is_forbidden example_env symbol = False"
  "is_valid_symbol example_env symbol v = True"
  "is_valid_did_symbol example_env symbol strict = True"
  "is_valid_mit_symbol example_env symbol strict = True"
  "is_valid_domain example_env symbol = True"
  "attachment_is_valid example_env att = True"
  "check_model_param example_env param supply = True"
  "check_model_param_tx example_env tx ch = success"
  "get_lock_heights_index example_env h = 0"
  "check_attachment_address example_env out ch = success"
  "check_attachment_did_match_address example_env out ch = success"
  "is_secondaryissue_owns_enough example_env = owns_enough_percent"
  "is_secondaryissue_threshold_value_ok example_env detail = True"
  by (simp_all add: example_env_def)

lemma example_chain_simps [simp]:
  "fetch_transaction (example_chain confirmed height) h
     = (case confirmed h of
          None \<Rightarrow> (not_found, \<lparr>version = 0, inputs = [], outputs = []\<rparr>)
        | Some (t, parent) \<Rightarrow> (success, t))"
  "fetch_transaction_index (example_chain confirmed height) h
     = (case confirmed h of None \<Rightarrow> (not_found, 0) | Some (t, parent) \<Rightarrow> (success, parent))"
  "fetch_last_height (example_chain confirmed height) = (success, height)"
  "fetch_spend (example_chain confirmed height) p = unspent_output"
  "get_transaction (example_chain confirmed height) = confirmed"
  "get_last_height (example_chain confirmed height) = Some height"
  "is_asset_exist (example_chain confirmed height) symbol b = False"
  "is_asset_cert_exist (example_chain confirmed height) symbol t = False"
  "get_registered_did (example_chain confirmed height) symbol = None"
  "get_registered_mit (example_chain confirmed height) symbol = None"
  "is_valid_address (example_chain confirmed height) address = False"
  "is_did_exist (example_chain confirmed height) symbol = (symbol = ''ALICE'')"
  "is_address_registered_did (example_chain confirmed height) address = False"
  "get_did_from_address (example_chain confirmed height) address = []"
  "get_asset_volume (example_chain confirmed height) symbol = 1000000"
  "use_testnet_rules (example_chain confirmed height) = False"
  by (simp_all add: example_chain_def)

lemma empty_pool_simps [simp]:
  "is_in_pool empty_pool h = False"
  "pool_find empty_pool h = None"
  "is_spent_in_pool empty_pool tx = False"
  by (simp_all add: empty_pool_def)

lemma fresh_state_simps [simp]:
  "st_current_input fresh_state = 0"
  "st_last_block_height fresh_state = 0"
  "st_aggregates fresh_state = initial_aggregates"
  "st_unconfirmed fresh_state = []"
  by (simp_all add: fresh_state_def)

lemma initial_aggregates_simps [simp]:
  "value_in initial_aggregates = 0"
  "asset_amount_in initial_aggregates = 0"
  "asset_certs_in initial_aggregates = []"
  "old_symbol_in initial_aggregates = []"
  "new_symbol_in initial_aggregates = []"
  "business_kind_in initial_aggregates = etp"
  by (simp_all add: initial_aggregates_def)

subsection \<open>What \<^verbatim>\<open>connect_input\<close> does before it reaches the kind of the output\<close>

lemma connect_input_kind_reached:
  assumes "unat (point_index (previous_output (inputs tx ! cur))) < length (outputs ptx)"
    and "output_value (outputs ptx ! unat (point_index (previous_output (inputs tx ! cur))))
           \<le> max_money e"
  shows "business_kind_in (snd (connect_input e tx cur ptx ph lbh flags a))
           = business_kind_in
               (snd (connect_kind
                       (outputs ptx ! unat (point_index (previous_output (inputs tx ! cur)))) a))"
  using assms
  by (auto simp: connect_input_def Let_def not_le split: prod.splits bool.splits)

lemma connect_input_accepts_kind:
  assumes "fst (connect_input e tx cur ptx ph lbh flags a)"
  shows "unat (point_index (previous_output (inputs tx ! cur))) < length (outputs ptx)
         \<and> output_value (outputs ptx ! unat (point_index (previous_output (inputs tx ! cur))))
             \<le> max_money e
         \<and> fst (connect_kind
                  (outputs ptx ! unat (point_index (previous_output (inputs tx ! cur)))) a)"
  using assms
  by (auto simp: connect_input_def Let_def not_le split: if_splits prod.splits bool.splits)

lemma connect_asset_agree:
  "fst (connect_asset previous_out a)
     = (get_asset_symbol previous_out = [] \<or> old_symbol_in a = []
          \<or> old_symbol_in a = get_asset_symbol previous_out)"
  by (auto simp: connect_asset_def Let_def)

lemma connect_asset_business_kind:
  assumes "fst (connect_asset previous_out a)"
  shows "business_kind_in (snd (connect_asset previous_out a))
           = (if is_asset_issue previous_out \<or> is_asset_secondaryissue previous_out
              then asset_issue
              else if is_asset_transfer previous_out then did_transfer
              else business_kind_in a)"
  using assms by (auto simp: connect_asset_def Let_def split: if_splits)

lemma asset_kinds_disjoint:
  "is_asset_transfer out \<Longrightarrow> \<not> is_asset_issue out \<and> \<not> is_asset_secondaryissue out"
  by (auto simp: kind_defs split: attach.splits)

lemma connect_cert_kind:
  "business_kind_in (snd (connect_cert previous_out a)) = asset_cert"
  by (simp add: connect_cert_def Let_def)

lemma connect_cert_duplicate:
  "test_certs (asset_certs_in a) (get_asset_cert_type previous_out)
     \<Longrightarrow> \<not> fst (connect_cert previous_out a)"
  by (simp add: connect_cert_def Let_def)

lemma connect_cert_symbol_rule:
  assumes "fst (connect_cert previous_out a)" and "old_symbol_in a \<noteq> []"
  shows "if test_certs (asset_certs_in a) cert_domain
         then get_domain (old_symbol_in a) = get_asset_cert_symbol previous_out
         else old_symbol_in a = get_asset_symbol previous_out"
  using assms by (auto simp: connect_cert_def Let_def split: if_splits)

lemma cert_not_asset: "is_asset_cert out \<Longrightarrow> \<not> is_asset out"
  by (auto simp: kind_defs split: attach.splits)

lemma word_pred_less: "0 < (m :: uint64) \<Longrightarrow> m - 1 < m"
  by (simp add: word_less_nat_alt unat_minus_one word_gt_0 unat_gt_0)

lemma is_coinbase_no_inputs: "\<not> is_coinbase e (previous_tx\<lparr>inputs := []\<rparr>)"
  by (simp add: is_coinbase_def)


subsection \<open>Running the validator on the example chain\<close>

lemma check_transaction_basic_example:
  assumes "v \<le> 10000000000000000"
    and "att = attach_etp \<or> (\<exists>t. att = attach_asset_transfer t)"
  shows "check_transaction_basic example_env (example_chain confirmed height)
           (spending_tx 2 i [example_output v address sender att]) = success"
  using assms
  by (auto simp add: check_transaction_basic_def is_nova_feature_activated_def
        max_transaction_size_def check_output_symbols_def check_input_lock_height_def
        check_output_lock_height_def is_coinbase_def kind_defs not_less)

lemma check_features_example:
  assumes "att = attach_etp \<or> (\<exists>t. att = attach_asset_transfer t)"
  shows "check_asset_issue_transaction example_env ch
           (spending_tx 2 i [example_output v address sender att]) = Inr success"
    and "check_asset_cert_issue_transaction ch
           (spending_tx 2 i [example_output v address sender att]) = Inr success"
    and "check_secondaryissue_transaction example_env ch
           (spending_tx 2 i [example_output v address sender att]) = Inr success"
    and "check_asset_mit_register_transaction ch
           (spending_tx 2 i [example_output v address sender att]) = Inr success"
  using assms
  by (auto simp add: check_asset_issue_transaction_def check_asset_cert_issue_transaction_def
        check_secondaryissue_transaction_def check_asset_mit_register_transaction_def kind_defs)

lemma check_transaction_example:
  assumes "v \<le> 10000000000000000"
    and "att = attach_etp \<or> (\<exists>t. att = attach_asset_transfer t)"
  shows "check_transaction example_env (example_chain confirmed height)
           (spending_tx 2 i [example_output v address [] att]) = Inr success"
  using assms
  by (auto simp add: check_transaction_def check_transaction_basic_example
        check_features_example check_did_transaction_def did_output_def
        connect_input_address_match_did_def)

lemma basic_checks_example:
  assumes "v \<le> 10000000000000000"
    and "att = attach_etp \<or> (\<exists>t. att = attach_asset_transfer t)"
  shows "basic_checks example_env (example_chain confirmed height) empty_pool
           (spending_tx 2 i [example_output v address [] att]) = Inr success"
  using assms
  by (simp add: basic_checks_def check_transaction_example is_coinbase_def is_standard_def)

lemma confirmed_one_simps [simp]:
  "confirmed_one t parent 7 = Some (t, parent)"
  "confirmed_one t parent 8 = None"
  by (simp_all add: confirmed_one_def)

lemma next_previous_transaction_example:
  "next_previous_transaction example_env (example_chain (confirmed_one (funding_tx 20000 att) 100) 5000)
     empty_pool (spending_tx 2 0 outs) (begin_inputs fresh_state 5000)
   = Inr \<lparr>st_last_block_height = 5000, st_current_input = 1,
          st_aggregates = snd (connect_input example_env (spending_tx 2 0 outs) 0 (funding_tx 20000 att) 100 5000 (all_enabled example_env) initial_aggregates),
          st_unconfirmed = []\<rparr>"
  if "fst (connect_input example_env (spending_tx 2 0 outs) 0 (funding_tx 20000 att) 100 5000 (all_enabled example_env) initial_aggregates)"
  using that
  by (auto simp: next_previous_transaction.simps connect_current_input_def previous_tx_index_def
        handle_previous_tx_def check_double_spend_def begin_inputs_def fresh_state_def
        split: prod.splits bool.splits)


lemma start_example:
  assumes "v \<le> 10000000000000000"
    and "att = attach_etp \<or> (\<exists>t. att = attach_asset_transfer t)"
    and "connect_input example_env (spending_tx 2 0 [example_output v address [] att]) 0
           (funding_tx 20000 spent) 100 5000 (all_enabled example_env) initial_aggregates
         = (True, a)"
  shows "start example_env (example_chain (confirmed_one (funding_tx 20000 spent) 100) 5000)
           empty_pool (spending_tx 2 0 [example_output v address [] att]) fresh_state
         = Inr (check_fees example_env (spending_tx 2 0 [example_output v address [] att])
                 \<lparr>st_last_block_height = 5000, st_current_input = 1,
                  st_aggregates = a, st_unconfirmed = []\<rparr>)"
  using assms
  by (simp add: start_def basic_checks_example handle_duplicate_check_def set_last_height_def
        next_previous_transaction_example)

lemma connect_input_example_etp:
  "connect_input example_env (spending_tx 2 0 outs) 0 (funding_tx 20000 attach_etp) 100 5000
     flags initial_aggregates
   = (True, initial_aggregates\<lparr>value_in := 20000\<rparr>)"
  by (simp add: connect_input_def connect_kind_def kind_defs is_coinbase_def
        check_consensus_def Let_def)



subsection \<open>The pipeline over the inputs\<close>






lemma next_previous_transaction_rejects:
  "next_previous_transaction e ch pl tx st = Inl v \<Longrightarrow> fst v \<noteq> success"
proof (induction e ch pl tx st rule: next_previous_transaction.induct)
  case (1 e ch pl tx st)
  have step: "fst w \<noteq> success" if "connect_current_input e ch pl tx st = Inl w" for w
    using that
    by (auto simp: connect_current_input_def previous_tx_index_def search_pool_previous_tx_def
          handle_previous_tx_def check_double_spend_def Let_def
          split: if_splits option.splits sum.splits prod.splits bool.splits)
  from "1.prems" show ?case
    by (subst (asm) next_previous_transaction.simps)
       (auto split: sum.splits if_splits dest: step "1.IH")
qed

lemma start_accepted:
  assumes "start e ch pl tx st = Inr [(success, u)]"
  shows "basic_checks e ch pl tx = Inr success \<and> inputs tx \<noteq> []
         \<and> (\<exists>st2. next_previous_transaction e ch pl tx
                     (begin_inputs st (snd (fetch_last_height ch))) = Inr st2
                   \<and> check_fees e tx st2 = [(success, u)])"
  using assms
  by (auto simp: start_def handle_duplicate_check_def set_last_height_def
           split: sum.splits if_splits dest: next_previous_transaction_rejects)


subsection \<open>The codes of the basic checks\<close>

lemma check_output_symbols_codes:
  "check_output_symbols e ch tx out \<in> {success, asset_symbol_invalid, did_address_needed, did_symbol_invalid, mit_symbol_invalid, attachment_invalid}"
  by (simp add: check_output_symbols_def)

lemma check_input_lock_height_codes:
  "check_input_lock_height e ch i \<in> {success, previous_output_null, input_not_found, invalid_input_script_lock_height}"
  by (simp add: check_input_lock_height_def Let_def split: option.splits)

lemma check_output_lock_height_codes:
  "check_output_lock_height e out \<in> {success, invalid_output_script_lock_height}"
  by (simp add: check_output_lock_height_def)

lemma first_error_in:
  "success \<in> S \<Longrightarrow> (\<And>x. body x \<in> S) \<Longrightarrow> first_error body xs \<in> S"
  by (induction xs) auto

lemma first_error_symbols_codes:
  "first_error (check_output_symbols e ch tx) outs
     \<in> {success, asset_symbol_invalid, did_address_needed, did_symbol_invalid,
         mit_symbol_invalid, attachment_invalid}"
  by (rule first_error_in) (simp, rule check_output_symbols_codes)

lemma first_error_input_codes:
  "first_error (check_input_lock_height e ch) ins
     \<in> {success, previous_output_null, input_not_found, invalid_input_script_lock_height}"
  by (rule first_error_in) (simp, rule check_input_lock_height_codes)

lemma first_error_output_codes:
  "first_error (check_output_lock_height e) outs
     \<in> {success, invalid_output_script_lock_height}"
  by (rule first_error_in) (simp, rule check_output_lock_height_codes)

lemma nova_gate_closed: "check_transaction_basic e ch tx = nova_feature_not_activated"
    if "version tx = check_nova_feature e" "check_nova_feature e < max_version e"
       "\<not> use_testnet_rules ch" "get_last_height ch = Some 1270000"
    using that
    by (simp add: check_transaction_basic_def is_nova_feature_activated_def not_le)


lemma nova_gate_open: "check_transaction_basic e ch tx \<noteq> nova_feature_not_activated"
    if "is_nova_feature_activated ch"
       "check_model_param_tx e tx ch \<noteq> nova_feature_not_activated"
proof -
  have a: "first_error (check_output_symbols e ch tx) (outputs tx) \<noteq> nova_feature_not_activated"
    using first_error_symbols_codes [of e ch tx "outputs tx"] by auto
  have b: "first_error (check_input_lock_height e ch) (inputs tx) \<noteq> nova_feature_not_activated"
    using first_error_input_codes [of e ch "inputs tx"] by auto
  have c: "first_error (check_output_lock_height e) (outputs tx) \<noteq> nova_feature_not_activated"
    using first_error_output_codes [of e "outputs tx"] by auto
  show ?thesis
    using that a b c
    by (simp add: check_transaction_basic_def Let_def)
qed

subsection \<open>The locals of the secondary-issue check\<close>

lemma secondaryissue_overflow_iff:
  "(max_uint64 - amount < total_volume) = (2 ^ 64 \<le> unat total_volume + unat amount)"
proof -
  have bound: "unat amount < 2 ^ 64"
    using unsigned_less [of amount, where ?'a = nat] by simp
  have top: "unat (- 1 :: uint64) = 2 ^ 64 - 1"
    by (simp add: unsigned_minus_1_eq_mask mask_eq_exp_minus_1)
  have "unat (- 1 - amount) = 2 ^ 64 - 1 - unat amount"
    using top by (simp add: unat_sub)
  then show ?thesis
    using bound by (simp add: max_uint64_def word_less_nat_alt) arith
qed

lemma secondaryissue_output_volume:
  "secondaryissue_output e out s = Continue s'
     \<Longrightarrow> si_asset_transfer_volume s'
         = si_asset_transfer_volume s
           + (if is_asset_transfer out then get_asset_amount out else 0)"
  by (auto simp: secondaryissue_output_def is_asset_transfer_def get_asset_amount_def
           split: attach.splits if_splits prod.splits bool.splits)

lemma secondaryissue_loop_volume:
  "run_loop (secondaryissue_output e) outs s = Continue s'
     \<Longrightarrow> si_asset_transfer_volume s'
         = si_asset_transfer_volume s
           + sum_list (map get_asset_amount (filter is_asset_transfer outs))"
proof (induction outs arbitrary: s)
  case Nil
  then show ?case by simp
next
  case (Cons out outs)
  then obtain s1 where step: "secondaryissue_output e out s = Continue s1"
    and rest: "run_loop (secondaryissue_output e) outs s1 = Continue s'"
    by (auto split: flow.splits)
  from Cons.IH [OF rest] secondaryissue_output_volume [OF step]
  show ?case by (simp add: add.assoc)
qed

lemma secondaryissue_loop_example:
  "run_loop (secondaryissue_output example_env)
     [example_output 0 ''addr1'' []
        (attach_asset_secondaryissue
           \<lparr>detail_symbol = ''ABC'', maximum_supply = supply, secondaryissue_threshold = 50,
            detail_is_asset_secondaryissue = True, issuer = ''ALICE'',
            detail_address = ''addr1'', asset_cert_mask = []\<rparr>),
      example_output 10000 ''addr1'' []
        (attach_asset_transfer \<lparr>transfer_symbol = ''ABC'', quantity = q\<rparr>)]
     secondaryissue_initial
   = Continue \<lparr>si_asset_symbol = ''ABC'', si_asset_address = ''addr1'',
               si_asset_cert_owner = [], si_secondaryissue_threshold = 50,
               si_secondaryissue_asset_amount = supply, si_asset_transfer_volume = q,
               si_num_asset_secondaryissue = 1, si_num_asset_transfer = 1,
               si_num_asset_cert = 0, si_certs_out = []\<rparr>"
  by (simp add: secondaryissue_output_def secondaryissue_initial_def check_same_def)

subsection \<open>The DID check\<close>

lemma run_loop_append:
  "run_loop body (xs @ ys) s
     = (case run_loop body xs s of
          Continue s' \<Rightarrow> run_loop body ys s'
        | Return r \<Rightarrow> Return r
        | Throw x \<Rightarrow> Throw x)"
  by (induction xs arbitrary: s) (auto split: flow.splits)

lemma run_loop_Continue_member:
  "run_loop body xs s = Continue s' \<Longrightarrow> x \<in> set xs
     \<Longrightarrow> \<exists>s1 s2. body x s1 = Continue s2"
  by (induction xs arbitrary: s) (auto split: flow.splits)

lemma did_input_found:
  assumes "did_input ch info i (fd, fa) = Continue (fd', fa')"
  shows "(fd' \<longrightarrow> fd \<or> spends_did ch (did_detail_symbol (did_get_data info)) i)
         \<and> (fa' \<longrightarrow> fa \<or> spends_etp_at ch (did_detail_address (did_get_data info)) i)"
  using assms
  by (auto simp: did_input_def spends_did_def spends_etp_at_def is_did_def
           split: option.splits sum.splits if_splits)

lemma did_inputs_found:
  "run_loop (did_input ch info) ins (fd, fa) = Continue (fd', fa')
     \<Longrightarrow> (fd' \<longrightarrow> fd \<or> list_ex (spends_did ch (did_detail_symbol (did_get_data info))) ins)
         \<and> (fa' \<longrightarrow> fa
              \<or> list_ex (spends_etp_at ch (did_detail_address (did_get_data info))) ins)"
proof (induction ins arbitrary: fd fa)
  case Nil
  then show ?case by simp
next
  case (Cons i ins)
  then obtain fd1 fa1 where step: "did_input ch info i (fd, fa) = Continue (fd1, fa1)"
    and rest: "run_loop (did_input ch info) ins (fd1, fa1) = Continue (fd', fa')"
    by (auto split: flow.splits)
  from Cons.IH [OF rest] did_input_found [OF step]
  show ?case by auto
qed

lemma did_inputs_never_return_true:
  "run_loop (did_input ch info) ins found \<noteq> Return True"
  by (induction ins arbitrary: found)
     (auto simp: did_input_def split: flow.splits option.splits sum.splits if_splits)

lemma connect_did_input_transfer:
  assumes "connect_did_input ch tx \<lparr>did_get_status = DID_TRANSFERABLE_TYPE, did_get_data = detail\<rparr>
             = Inr True"
  shows "length (inputs tx) = 2
         \<and> list_ex (spends_did ch (did_detail_symbol detail)) (inputs tx)
         \<and> list_ex (spends_etp_at ch (did_detail_address detail)) (inputs tx)"
proof -
  let ?info = "\<lparr>did_get_status = DID_TRANSFERABLE_TYPE, did_get_data = detail\<rparr>"
  from assms have two: "length (inputs tx) = 2"
    by (auto simp: connect_did_input_def split: if_splits)
  from assms two did_inputs_never_return_true [of ch ?info "inputs tx" "(False, False)"]
  obtain fd fa where
    loop: "run_loop (did_input ch ?info) (inputs tx) (False, False) = Continue (fd, fa)"
    and found: "fd \<and> fa"
    by (auto simp: connect_did_input_def split: flow.splits prod.splits)
  from did_inputs_found [OF loop] found two show ?thesis by simp
qed

lemma did_output_transfer_Continue:
  assumes "did_output e ch tx out ty = Continue ty'"
    and "kind_of out = attach_did_transfer detail"
  shows "connect_did_input ch tx \<lparr>did_get_status = DID_TRANSFERABLE_TYPE, did_get_data = detail\<rparr>
           = Inr True"
  using assms
  by (auto simp: did_output_def split: if_splits sum.splits bool.splits)

lemma did_output_transfer_wrong_inputs:
  assumes "kind_of out = attach_did_transfer detail"
    and "length (inputs tx) \<noteq> 2"
    and "check_attachment_address e out ch = success"
    and "check_attachment_did_match_address e out ch = success"
    and "connect_input_address_match_did ch tx out = Inr True"
    and "is_did_exist ch (did_detail_symbol detail)"
    and "\<not> is_address_registered_did ch (did_detail_address detail)"
  shows "did_output e ch tx out None = Return did_input_error"
  using assms
  by (simp add: did_output_def connect_did_input_def)


lemma did_output_never_returns_success:
  "did_output e ch tx out ty \<noteq> Return success"
  by (auto simp: did_output_def split: sum.splits bool.splits attach.splits)

lemma did_outputs_never_return_success:
  "run_loop (did_output e ch tx) outs ty \<noteq> Return success"
  using did_output_never_returns_success [of e ch tx]
  by (induction outs arbitrary: ty) (auto split: flow.splits)

lemma check_did_transaction_success:
  "check_did_transaction e ch tx = Inr success
     \<Longrightarrow> \<exists>ty. run_loop (did_output e ch tx) (outputs tx) None = Continue ty"
  using did_outputs_never_return_success [of e ch tx "outputs tx" None]
  by (auto simp: check_did_transaction_def split: flow.splits)

lemma check_transaction_success:
  "check_transaction e ch tx = Inr success
     \<Longrightarrow> check_transaction_basic e ch tx = success
         \<and> check_did_transaction e ch tx = Inr success"
  by (auto simp: check_transaction_def split: if_splits)

lemma basic_checks_success:
  "basic_checks e ch pl tx = Inr success \<Longrightarrow> check_transaction e ch tx = Inr success"
  by (auto simp: basic_checks_def split: sum.splits if_splits)

lemma did_transfer_tx_simps [simp]:
  "version (did_transfer_tx ins) = 2"
  "inputs (did_transfer_tx ins) = ins"
  "outputs (did_transfer_tx ins)
     = [example_output 0 ''addr1'' []
          (attach_did_transfer
             \<lparr>did_detail_symbol = ''ALICE'', did_detail_address = ''addr1''\<rparr>)]"
  by (simp_all add: did_transfer_tx_def)

lemma confirmed_two_simps [simp]:
  "confirmed_two t1 t2 7 = Some (t1, 100)"
  "confirmed_two t1 t2 9 = Some (t2, 100)"
  by (simp_all add: confirmed_two_def)

lemma outputs_at_example_five:
  "outputs_at (funding_tx v att) 5 = Inl out_of_range"
  by (simp add: outputs_at_def)

subsection \<open>The handler calls of a run that returns\<close>

text \<open>
  A run of \<^verbatim>\<open>start\<close> that returns has called the handler exactly once: the basic
  checks reject a transaction without inputs, so \<^verbatim>\<open>set_last_height\<close> never meets
  the empty input list on which it would return without a call.
\<close>

lemma check_fees_one_call: "length (check_fees e tx st) = 1"
  by (simp add: check_fees_def Let_def)

lemma check_transaction_basic_inputs:
  "check_transaction_basic e ch tx = success \<Longrightarrow> inputs tx \<noteq> [] \<and> outputs tx \<noteq> []"
  by (auto simp: check_transaction_basic_def split: if_splits)

lemma start_one_call:
  assumes "start e ch pl tx st = Inr calls"
  shows "length calls = 1"
proof (cases "basic_checks e ch pl tx = Inr success")
  case True
  from check_transaction_basic_inputs check_transaction_success [OF basic_checks_success [OF True]]
  have "inputs tx \<noteq> []" by blast
  with assms True show ?thesis
    by (auto simp: start_def handle_duplicate_check_def set_last_height_def check_fees_one_call
             split: if_splits sum.splits)
next
  case False
  with assms show ?thesis
    by (auto simp: start_def split: sum.splits if_splits)
qed

subsection \<open>Sums without wrap-around, and the coinbase maturity check\<close>


lemma connect_input_coinbase_mature:
  assumes cb: "is_coinbase e previous_tx"
    and order: "parent_height \<le> last_block_height"
    and accepted: "fst (connect_input e tx current_input previous_tx parent_height
                          last_block_height flags a)"
  shows "unat parent_height + unat (coinbase_maturity e) \<le> unat last_block_height"
proof -
  have "coinbase_maturity e \<le> last_block_height - parent_height"
    using accepted cb
    by (auto simp: connect_input_def Let_def not_less split: if_splits prod.splits bool.splits)
  then have "unat (coinbase_maturity e) \<le> unat last_block_height - unat parent_height"
    using order by (simp add: word_le_nat_alt unat_sub)
  moreover have "unat parent_height \<le> unat last_block_height"
    using order by (simp add: word_le_nat_alt)
  ultimately show ?thesis by arith
qed

lemma next_previous_transaction_one_input:
  "next_previous_transaction example_env (example_chain (confirmed_one ptx parent) height)
     empty_pool (spending_tx 2 0 outs) (begin_inputs fresh_state height)
   = Inr \<lparr>st_last_block_height = height, st_current_input = 1,
          st_aggregates = snd (connect_input example_env (spending_tx 2 0 outs) 0 ptx parent
                                 height (all_enabled example_env) initial_aggregates),
          st_unconfirmed = []\<rparr>"
  if "fst (connect_input example_env (spending_tx 2 0 outs) 0 ptx parent height
             (all_enabled example_env) initial_aggregates)"
  using that
  by (auto simp: next_previous_transaction.simps connect_current_input_def previous_tx_index_def
        handle_previous_tx_def check_double_spend_def begin_inputs_def fresh_state_def
        split: prod.splits bool.splits)

lemma start_one_input:
  assumes "v \<le> 10000000000000000"
    and "connect_input example_env (spending_tx 2 0 [example_output v address [] attach_etp]) 0
           ptx parent height (all_enabled example_env) initial_aggregates
         = (True, a)"
  shows "start example_env (example_chain (confirmed_one ptx parent) height)
           empty_pool (spending_tx 2 0 [example_output v address [] attach_etp]) fresh_state
         = Inr (check_fees example_env (spending_tx 2 0 [example_output v address [] attach_etp])
                 \<lparr>st_last_block_height = height, st_current_input = 1,
                  st_aggregates = a, st_unconfirmed = []\<rparr>)"
  using assms
  by (simp add: start_def basic_checks_example handle_duplicate_check_def set_last_height_def
        next_previous_transaction_one_input)

lemma connect_input_example_coinbase:
  "connect_input example_env (spending_tx 2 0 outs) 0 (coinbase_tx 20000) 5001 5000
     flags initial_aggregates
   = (True, initial_aggregates\<lparr>value_in := 20000\<rparr>)"
  by (simp add: connect_input_def connect_kind_def kind_defs is_coinbase_def
        check_consensus_def Let_def)

lemma connect_input_coinbase_boundary:
  assumes cb: "is_coinbase e previous_tx"
  shows "(fst (connect_input e tx current_input previous_tx parent_height
                 last_block_height flags a)
            \<longrightarrow> coinbase_maturity e \<le> last_block_height - parent_height)
         \<and> (0 < coinbase_maturity e
            \<longrightarrow> \<not> fst (connect_input e tx current_input previous_tx h
                         (h + coinbase_maturity e - 1) flags a)
                \<and> handle_previous_tx e ch tx
                     (st\<lparr>st_last_block_height := h + coinbase_maturity e - 1\<rparr>)
                     success previous_tx h
                   = Inl (validate_inputs_failed, [st_current_input st]))
         \<and> connect_input e tx current_input previous_tx h (h + coinbase_maturity e) flags a
             = connect_input e tx current_input (previous_tx\<lparr>inputs := []\<rparr>) h
                 (h + coinbase_maturity e) flags a"
proof -
  have mature: "coinbase_maturity e \<le> last_block_height - parent_height"
    if "fst (connect_input e tx current_input previous_tx parent_height
               last_block_height flags a)"
    using that cb
    by (auto simp: connect_input_def Let_def not_less split: if_splits prod.splits bool.splits)
  have early: "\<not> fst (connect_input e tx cur previous_tx h
                         (h + coinbase_maturity e - 1) fl b)"
    if "0 < coinbase_maturity e" for cur b fl
    using word_pred_less [OF that] cb
    by (auto simp: connect_input_def Let_def split: if_splits prod.splits bool.splits)
  have reported: "handle_previous_tx e ch tx
                    (st\<lparr>st_last_block_height := h + coinbase_maturity e - 1\<rparr>)
                    success previous_tx h
                  = Inl (validate_inputs_failed, [st_current_input st])"
    if "0 < coinbase_maturity e"
    using early [OF that, of "st_current_input st" "all_enabled e" "st_aggregates st"]
    by (auto simp: handle_previous_tx_def split: prod.splits bool.splits)
  have same: "connect_input e tx current_input previous_tx h (h + coinbase_maturity e) flags a
              = connect_input e tx current_input (previous_tx\<lparr>inputs := []\<rparr>) h
                  (h + coinbase_maturity e) flags a"
    by (simp add: connect_input_def is_coinbase_no_inputs Let_def
             split: prod.splits bool.splits)
  show ?thesis
    using mature early reported same by blast
qed

section \<open>The claims\<close>

subsection \<open>C10: an input index beyond the previous outputs\<close>

text \<open>
  C10. When the index of the input's previous output point is greater than or equal to
  the number of outputs of the resolved previous transaction, \<^verbatim>\<open>connect_input\<close>
  returns false without reading an output and without touching the aggregates, and
  \<^verbatim>\<open>handle_previous_tx\<close> calls the handler with \<open>validate_inputs_failed\<close> and the
  index of that input.
\<close>

theorem connect_input_rejects_index_out_of_bounds:
  assumes "length (outputs previous_tx)
             \<le> unat (point_index (previous_output (inputs tx ! st_current_input st)))"
  shows "connect_input e tx (st_current_input st) previous_tx parent_height
           last_block_height flags a = (False, a)
         \<and> handle_previous_tx e ch tx st success previous_tx parent_height
             = Inl (validate_inputs_failed, [st_current_input st])"
  using assms by (simp add: handle_previous_tx_def connect_input_def)

theorem connect_input_rejects_index_out_of_bounds_witness:
  "length (outputs (funding_tx 20000 attach_etp))
     \<le> unat (point_index (previous_output
                (inputs (spending_tx 2 5 []) ! st_current_input fresh_state)))
   \<and> connect_input example_env (spending_tx 2 5 []) (st_current_input fresh_state)
        (funding_tx 20000 attach_etp) 100 5000 0 initial_aggregates
       = (False, initial_aggregates)
   \<and> handle_previous_tx example_env (example_chain (confirmed_one (funding_tx 20000 attach_etp) 100) 5000)
        (spending_tx 2 5 []) fresh_state success (funding_tx 20000 attach_etp) 100
       = Inl (validate_inputs_failed, [st_current_input fresh_state])"
proof -
  have h: "length (outputs (funding_tx 20000 attach_etp))
             \<le> unat (point_index (previous_output
                        (inputs (spending_tx 2 5 []) ! st_current_input fresh_state)))"
    by simp
  show ?thesis
    using h connect_input_rejects_index_out_of_bounds [OF h]
    by blast
qed


subsection \<open>C2: the business kind latched from an asset input\<close>

text \<open>
  C2. Let the previous output of the input be an asset output, and let
  \<^verbatim>\<open>connect_input\<close> get as far as setting the business type: it accepts the input,
  or at least the output's value is within \<open>max_money\<close> and its symbol does not
  contradict \<^verbatim>\<open>old_symbol_in\<close>. Then \<^verbatim>\<open>business_kind_in\<close> is \<open>asset_issue\<close>
  when the output is an asset-issue or asset-secondary-issue output, and it is
  \<open>did_transfer\<close>, not \<open>asset_transfer\<close>, when the output is an asset-transfer
  output.
\<close>

theorem connect_input_asset_business_kind:
  assumes range: "unat (point_index (previous_output (inputs tx ! current_input)))
                    < length (outputs previous_tx)"
    and prev: "previous_out
                 = outputs previous_tx ! unat (point_index (previous_output (inputs tx ! current_input)))"
    and asset: "is_asset previous_out"
    and reached: "fst (connect_input e tx current_input previous_tx parent_height
                        last_block_height flags a)
                  \<or> (output_value previous_out \<le> max_money e
                      \<and> (get_asset_symbol previous_out = [] \<or> old_symbol_in a = []
                           \<or> old_symbol_in a = get_asset_symbol previous_out))"
  shows "(is_asset_issue previous_out \<or> is_asset_secondaryissue previous_out
            \<longrightarrow> business_kind_in
                  (snd (connect_input e tx current_input previous_tx parent_height
                          last_block_height flags a)) = asset_issue)
         \<and> (is_asset_transfer previous_out
            \<longrightarrow> business_kind_in
                  (snd (connect_input e tx current_input previous_tx parent_height
                          last_block_height flags a)) = did_transfer)"
proof -
  have value_ok: "output_value previous_out \<le> max_money e"
    and agree: "fst (connect_asset previous_out a)"
    using reached connect_input_accepts_kind [of e tx current_input previous_tx parent_height
        last_block_height flags a] asset
    by (auto simp: prev connect_kind_def connect_asset_agree)
  have "business_kind_in
          (snd (connect_input e tx current_input previous_tx parent_height
                  last_block_height flags a))
        = business_kind_in (snd (connect_asset previous_out a))"
    using connect_input_kind_reached [OF range, of e parent_height last_block_height flags a]
      value_ok asset
    by (simp add: prev connect_kind_def)
  then show ?thesis
    using connect_asset_business_kind [OF agree] asset_kinds_disjoint [of previous_out]
    by auto
qed


theorem connect_input_asset_business_kind_witness:
  "is_asset (example_output 20000 ''addr1'' []
               (attach_asset_transfer \<lparr>transfer_symbol = ''ABC'', quantity = 5\<rparr>))
   \<and> is_asset_transfer (example_output 20000 ''addr1'' []
               (attach_asset_transfer \<lparr>transfer_symbol = ''ABC'', quantity = 5\<rparr>))
   \<and> business_kind_in
        (snd (connect_input example_env (spending_tx 2 0 []) 0
                (funding_tx 20000
                   (attach_asset_transfer \<lparr>transfer_symbol = ''ABC'', quantity = 5\<rparr>))
                100 5000 0 initial_aggregates)) = did_transfer"
proof -
  let ?out = "example_output 20000 ''addr1'' []
                (attach_asset_transfer \<lparr>transfer_symbol = ''ABC'', quantity = 5\<rparr>)"
  let ?ptx = "funding_tx 20000
                (attach_asset_transfer \<lparr>transfer_symbol = ''ABC'', quantity = 5\<rparr>)"
  have range: "unat (point_index (previous_output (inputs (spending_tx 2 0 []) ! 0)))
                 < length (outputs ?ptx)"
    by simp
  have prev: "?out = outputs ?ptx
                       ! unat (point_index (previous_output (inputs (spending_tx 2 0 []) ! 0)))"
    by simp
  have asset: "is_asset ?out" and transfer: "is_asset_transfer ?out"
    by (simp_all add: is_asset_def is_asset_transfer_def)
  have reached: "fst (connect_input example_env (spending_tx 2 0 []) 0 ?ptx 100 5000 0
                        initial_aggregates)
                 \<or> (output_value ?out \<le> max_money example_env
                     \<and> (get_asset_symbol ?out = [] \<or> old_symbol_in initial_aggregates = []
                          \<or> old_symbol_in initial_aggregates = get_asset_symbol ?out))"
    by simp
  show ?thesis
    using asset transfer
      connect_input_asset_business_kind [OF range prev asset reached]
    by blast
qed

subsection \<open>C7: an input that spends an asset cert\<close>

text \<open>
  C7. Let the previous output of the input be an asset-cert output. If its value is
  within \<open>max_money\<close> then \<^verbatim>\<open>business_kind_in\<close> is set to \<open>asset_cert\<close>. The input
  is rejected if the cert type of the output already occurs in \<^verbatim>\<open>asset_certs_in\<close>.
  If the input is accepted and \<^verbatim>\<open>old_symbol_in\<close> was not empty, then: when
  \<^verbatim>\<open>asset_certs_in\<close> already holds a domain cert the symbol of the new cert is the
  domain of \<^verbatim>\<open>old_symbol_in\<close>, and otherwise the new symbol is
  \<^verbatim>\<open>old_symbol_in\<close>.
\<close>

theorem connect_input_cert_rules:
  assumes range: "unat (point_index (previous_output (inputs tx ! current_input)))
                    < length (outputs previous_tx)"
    and prev: "previous_out
                 = outputs previous_tx ! unat (point_index (previous_output (inputs tx ! current_input)))"
    and cert: "is_asset_cert previous_out"
    and res: "r = connect_input e tx current_input previous_tx parent_height
                    last_block_height flags a"
  shows "(output_value previous_out \<le> max_money e
            \<longrightarrow> business_kind_in (snd r) = asset_cert)
         \<and> (get_asset_cert_type previous_out \<in> set (asset_certs_in a) \<longrightarrow> \<not> fst r)
         \<and> (fst r \<and> old_symbol_in a \<noteq> []
            \<longrightarrow> (if cert_domain \<in> set (asset_certs_in a)
                 then get_asset_cert_symbol previous_out = get_domain (old_symbol_in a)
                 else get_asset_symbol previous_out = old_symbol_in a))"
proof -
  have kind: "connect_kind previous_out a = connect_cert previous_out a"
    using cert cert_not_asset [of previous_out] by (simp add: connect_kind_def)
  have accepted: "fst (connect_cert previous_out a)" if "fst r"
    using that connect_input_accepts_kind [of e tx current_input previous_tx parent_height
        last_block_height flags a]
    by (simp add: res prev [symmetric] kind)
  have "business_kind_in (snd r) = asset_cert" if "output_value previous_out \<le> max_money e"
    using connect_input_kind_reached [OF range, of e parent_height last_block_height flags a] that
    by (simp add: res prev [symmetric] kind connect_cert_kind)
  moreover have "\<not> fst r" if "get_asset_cert_type previous_out \<in> set (asset_certs_in a)"
    using that accepted connect_cert_duplicate [of a previous_out]
    by (auto simp: test_certs_def)
  moreover have "if cert_domain \<in> set (asset_certs_in a)
                 then get_asset_cert_symbol previous_out = get_domain (old_symbol_in a)
                 else get_asset_symbol previous_out = old_symbol_in a"
    if "fst r" "old_symbol_in a \<noteq> []"
    using connect_cert_symbol_rule [OF accepted [OF that(1)] that(2)]
    by (auto simp: test_certs_def split: if_splits)
  ultimately show ?thesis by blast
qed


theorem connect_input_cert_rules_witness:
  "business_kind_in
     (snd (connect_input example_env (spending_tx 2 0 []) 0
             (funding_tx 20000
                (attach_asset_cert
                   \<lparr>cert_symbol = ''ABC'', cert_owner = ''ALICE'', cert_address = ''addr1'',
                    cert_type = cert_issue, cert_status = 0\<rparr>))
             100 5000 0
             (initial_aggregates\<lparr>asset_certs_in := [cert_naming],
                                  old_symbol_in := ''ABC''\<rparr>))) = asset_cert
   \<and> fst (connect_input example_env (spending_tx 2 0 []) 0
             (funding_tx 20000
                (attach_asset_cert
                   \<lparr>cert_symbol = ''ABC'', cert_owner = ''ALICE'', cert_address = ''addr1'',
                    cert_type = cert_issue, cert_status = 0\<rparr>))
             100 5000 0
             (initial_aggregates\<lparr>asset_certs_in := [cert_naming],
                                  old_symbol_in := ''ABC''\<rparr>))
   \<and> get_asset_symbol
        (example_output 20000 ''addr1'' []
           (attach_asset_cert
              \<lparr>cert_symbol = ''ABC'', cert_owner = ''ALICE'', cert_address = ''addr1'',
               cert_type = cert_issue, cert_status = 0\<rparr>)) = ''ABC''"
proof -
  let ?cert = "\<lparr>cert_symbol = ''ABC'', cert_owner = ''ALICE'', cert_address = ''addr1'',
                cert_type = cert_issue, cert_status = 0\<rparr>"
  let ?out = "example_output 20000 ''addr1'' [] (attach_asset_cert ?cert)"
  let ?ptx = "funding_tx 20000 (attach_asset_cert ?cert)"
  let ?a = "initial_aggregates\<lparr>asset_certs_in := [cert_naming], old_symbol_in := ''ABC''\<rparr>"
  let ?r = "connect_input example_env (spending_tx 2 0 []) 0 ?ptx 100 5000 0 ?a"
  have range: "unat (point_index (previous_output (inputs (spending_tx 2 0 []) ! 0)))
                 < length (outputs ?ptx)"
    by simp
  have prev: "?out = outputs ?ptx
                       ! unat (point_index (previous_output (inputs (spending_tx 2 0 []) ! 0)))"
    by simp
  have cert: "is_asset_cert ?out"
    by (simp add: is_asset_cert_def)
  have value_ok: "output_value ?out \<le> max_money example_env"
    by simp
  have accepted: "fst ?r"
    by (simp add: connect_input_def connect_kind_def connect_cert_def kind_defs
          test_certs_def get_asset_symbol_def get_asset_cert_type_def is_coinbase_def
          check_consensus_def Let_def)
  have old: "old_symbol_in ?a \<noteq> []" and no_domain: "cert_domain \<notin> set (asset_certs_in ?a)"
    by simp_all
  show ?thesis
    using connect_input_cert_rules [OF range prev cert refl, of example_env 100 5000 0 ?a]
      value_ok accepted old no_domain
    by (simp del: One_nat_def)
qed

subsection \<open>C5: coinbase maturity\<close>

text \<open>
  C5 fails on the input below. The height difference at line 1309 is a subtraction of
  two \<^verbatim>\<open>size_t\<close> values, which wraps when the previous transaction is confirmed
  above the height that \<^verbatim>\<open>fetch_last_height\<close> delivered earlier in the run. The
  coinbase transaction here is confirmed at height 5001 and the last height is 5000; with
  a maturity of 1000 the gap is not reached, yet \<^verbatim>\<open>connect_input\<close> accepts the
  input and the validator accepts the transaction.
\<close>

theorem connect_input_accepts_immature_coinbase:
  "is_coinbase example_env (coinbase_tx 20000)
   \<and> coinbase_maturity example_env = 1000
   \<and> fst (connect_input example_env
            (spending_tx 2 0 [example_output 10000 ''addr2'' [] attach_etp]) 0
            (coinbase_tx 20000) 5001 5000 (all_enabled example_env) initial_aggregates)
   \<and> start example_env (example_chain (confirmed_one (coinbase_tx 20000) 5001) 5000) empty_pool
       (spending_tx 2 0 [example_output 10000 ''addr2'' [] attach_etp]) fresh_state
     = Inr [(success, [])]
   \<and> \<not> unat (5001 :: uint64) + unat (coinbase_maturity example_env) \<le> unat (5000 :: uint64)"
proof -
  let ?tx = "spending_tx 2 0 [example_output 10000 ''addr2'' [] attach_etp]"
  let ?st = "\<lparr>st_last_block_height = 5000, st_current_input = 1,
              st_aggregates = initial_aggregates\<lparr>value_in := 20000\<rparr>,
              st_unconfirmed = []\<rparr>"
  have cb: "is_coinbase example_env (coinbase_tx 20000)"
    by (simp add: is_coinbase_def)
  have connected: "connect_input example_env ?tx 0 (coinbase_tx 20000) 5001 5000
                     (all_enabled example_env) initial_aggregates
                   = (True, initial_aggregates\<lparr>value_in := 20000\<rparr>)"
    by (rule connect_input_example_coinbase)
  have fees: "check_fees example_env ?tx ?st = [(success, [])]"
    by (simp add: check_fees_def tally_fees_def total_output_value_def min_tx_fee_def
          has_asset_transfer_def has_did_transfer_def kind_defs Let_def)
  have run: "start example_env (example_chain (confirmed_one (coinbase_tx 20000) 5001) 5000)
               empty_pool ?tx fresh_state = Inr [(success, [])]"
    using start_one_input [OF _ connected] fees by simp
  have gap: "\<not> unat (5001 :: uint64) + unat (coinbase_maturity example_env) \<le> unat (5000 :: uint64)"
    by simp
  show ?thesis
    using cb connected run gap by simp
qed

subsection \<open>C3: the fee range\<close>

text \<open>
  C3. When the inputs have all been connected, \<^verbatim>\<open>check_fees\<close> calls the handler with
  \<open>success\<close> only if the outputs' total does not exceed \<^verbatim>\<open>value_in\<close>, the fee
  \<^verbatim>\<open>value_in - value_out\<close> is at least \<^verbatim>\<open>min_tx_fee\<close>, which is 10000, and the
  fee does not exceed \<open>max_money\<close>; whenever one of the three fails it calls the handler
  with \<open>fees_out_of_range\<close> and no indices. With 20000 of etp connected (and
  \<open>max_money\<close> at least 10000): outputs of 10000 in total are accepted and the fee
  tallied is 10000; outputs of 10001 in total give \<open>fees_out_of_range\<close>, the fee being
  9999.
\<close>

theorem check_fees_fee_range:
  "((success, u) \<in> set (check_fees e tx st)
      \<longrightarrow> total_output_value tx \<le> value_in (st_aggregates st)
          \<and> min_tx_fee \<le> value_in (st_aggregates st) - total_output_value tx
          \<and> value_in (st_aggregates st) - total_output_value tx \<le> max_money e)
   \<and> (\<not> (total_output_value tx \<le> value_in (st_aggregates st)
          \<and> min_tx_fee \<le> value_in (st_aggregates st) - total_output_value tx
          \<and> value_in (st_aggregates st) - total_output_value tx \<le> max_money e)
      \<longrightarrow> check_fees e tx st = [(fees_out_of_range, [])])
   \<and> min_tx_fee = 10000
   \<and> (value_in (st_aggregates st) = 20000 \<and> business_kind_in (st_aggregates st) = etp
        \<and> 10000 \<le> max_money e
      \<longrightarrow> (total_output_value tx = 10000
             \<longrightarrow> check_fees e tx st = [(success, st_unconfirmed st)]
                 \<and> tally_fees e tx (value_in (st_aggregates st)) 0 = (True, 10000))
          \<and> (total_output_value tx = 10001
             \<longrightarrow> check_fees e tx st = [(fees_out_of_range, [])]
                 \<and> value_in (st_aggregates st) - total_output_value tx = 9999))"
proof -
  have tally: "fst (tally_fees e tx v 0)
                 = (total_output_value tx \<le> v \<and> min_tx_fee \<le> v - total_output_value tx
                      \<and> v - total_output_value tx \<le> max_money e)" for v
    by (auto simp: tally_fees_def Let_def not_less)
  have accepted: "total_output_value tx \<le> value_in (st_aggregates st)
          \<and> min_tx_fee \<le> value_in (st_aggregates st) - total_output_value tx
          \<and> value_in (st_aggregates st) - total_output_value tx \<le> max_money e"
    if "(success, u) \<in> set (check_fees e tx st)"
    using that tally [of "value_in (st_aggregates st)"]
    by (auto simp: check_fees_def Let_def split: if_splits)
  have rejected: "check_fees e tx st = [(fees_out_of_range, [])]"
    if "\<not> (total_output_value tx \<le> value_in (st_aggregates st)
          \<and> min_tx_fee \<le> value_in (st_aggregates st) - total_output_value tx
          \<and> value_in (st_aggregates st) - total_output_value tx \<le> max_money e)"
    using that tally [of "value_in (st_aggregates st)"]
    by (simp add: check_fees_def Let_def)
  have fee: "min_tx_fee = 10000"
    by (simp add: min_tx_fee_def)
  have s1: "check_fees e tx st = [(success, st_unconfirmed st)]
            \<and> tally_fees e tx (value_in (st_aggregates st)) 0 = (True, 10000)"
    if "value_in (st_aggregates st) = 20000" "business_kind_in (st_aggregates st) = etp"
       "10000 \<le> max_money e" "total_output_value tx = 10000"
    using that
    by (simp add: check_fees_def tally_fees_def min_tx_fee_def Let_def)
  have s2: "check_fees e tx st = [(fees_out_of_range, [])]
            \<and> value_in (st_aggregates st) - total_output_value tx = 9999"
    if "value_in (st_aggregates st) = 20000" "total_output_value tx = 10001"
    using that
    by (simp add: check_fees_def tally_fees_def min_tx_fee_def Let_def)
  show ?thesis
    using accepted rejected fee s1 s2 by blast
qed

theorem check_fees_fee_range_witness:
  "start example_env (example_chain (confirmed_one (funding_tx 20000 attach_etp) 100) 5000)
     empty_pool (spending_tx 2 0 [example_output 10000 ''addr2'' [] attach_etp]) fresh_state
   = Inr [(success, [])]
   \<and> tally_fees example_env (spending_tx 2 0 [example_output 10000 ''addr2'' [] attach_etp])
        20000 0 = (True, 10000)
   \<and> start example_env (example_chain (confirmed_one (funding_tx 20000 attach_etp) 100) 5000)
       empty_pool (spending_tx 2 0 [example_output 10001 ''addr2'' [] attach_etp]) fresh_state
     = Inr [(fees_out_of_range, [])]"
proof -
  let ?st = "\<lparr>st_last_block_height = 5000, st_current_input = 1,
              st_aggregates = initial_aggregates\<lparr>value_in := 20000\<rparr>,
              st_unconfirmed = []\<rparr>"
  let ?tx1 = "spending_tx 2 0 [example_output 10000 ''addr2'' [] attach_etp]"
  let ?tx2 = "spending_tx 2 0 [example_output 10001 ''addr2'' [] attach_etp]"
  have given: "value_in (st_aggregates ?st) = 20000 \<and> business_kind_in (st_aggregates ?st) = etp
               \<and> 10000 \<le> max_money example_env"
    by simp
  have out1: "total_output_value ?tx1 = 10000" and out2: "total_output_value ?tx2 = 10001"
    by (simp_all add: total_output_value_def)
  have run1: "start example_env (example_chain (confirmed_one (funding_tx 20000 attach_etp) 100) 5000)
                empty_pool ?tx1 fresh_state = Inr (check_fees example_env ?tx1 ?st)"
    and run2: "start example_env (example_chain (confirmed_one (funding_tx 20000 attach_etp) 100) 5000)
                empty_pool ?tx2 fresh_state = Inr (check_fees example_env ?tx2 ?st)"
    by (simp_all add: start_example connect_input_example_etp)
  have accepted: "check_fees example_env ?tx1 ?st = [(success, st_unconfirmed ?st)]
                  \<and> tally_fees example_env ?tx1 (value_in (st_aggregates ?st)) 0
                      = (True, 10000)"
    using given out1 check_fees_fee_range [of "[]" example_env ?tx1 ?st] by blast
  have rejected: "check_fees example_env ?tx2 ?st = [(fees_out_of_range, [])]"
    using given out2 check_fees_fee_range [of "[]" example_env ?tx2 ?st] by blast
  show ?thesis
    using accepted rejected by (simp add: run1 run2)
qed

subsection \<open>C1: conservation of the asset amount\<close>




subsection \<open>C6: the nova feature gate\<close>

text \<open>
  C6. \<^verbatim>\<open>is_nova_feature_activated\<close> holds on testnet whatever the height, and on
  mainnet, at the confirmed height \<open>height\<close>, exactly when \<open>height\<close> is greater than
  1270000. A transaction whose version is \<^verbatim>\<open>check_nova_feature\<close> (which lies below
  \<^verbatim>\<open>max_version\<close>) is rejected by \<^verbatim>\<open>check_transaction_basic\<close> with
  \<open>nova_feature_not_activated\<close> at the mainnet height 1270000; at the height 1270001
  it passes the gate, that is, \<^verbatim>\<open>check_transaction_basic\<close> does not return that
  code (the attenuation check, which is outside the sources, not returning it either).
\<close>

theorem nova_feature_gate:
  "(use_testnet_rules ch \<longrightarrow> is_nova_feature_activated ch)
   \<and> (\<not> use_testnet_rules ch \<and> get_last_height ch = Some height
      \<longrightarrow> is_nova_feature_activated ch = (1270000 < height))
   \<and> (version tx = check_nova_feature e \<and> check_nova_feature e < max_version e
        \<and> \<not> use_testnet_rules ch \<and> get_last_height ch = Some 1270000
      \<longrightarrow> check_transaction_basic e ch tx = nova_feature_not_activated)
   \<and> (version tx = check_nova_feature e \<and> check_nova_feature e < max_version e
        \<and> \<not> use_testnet_rules ch \<and> get_last_height ch = Some 1270001
        \<and> check_model_param_tx e tx ch \<noteq> nova_feature_not_activated
      \<longrightarrow> check_transaction_basic e ch tx \<noteq> nova_feature_not_activated)"
proof -
  have testnet: "is_nova_feature_activated ch" if "use_testnet_rules ch"
    using that by (simp add: is_nova_feature_activated_def)
  have mainnet: "is_nova_feature_activated ch = (1270000 < height)"
    if "\<not> use_testnet_rules ch" "get_last_height ch = Some height"
    using that by (simp add: is_nova_feature_activated_def)
  have active: "is_nova_feature_activated ch"
    if "\<not> use_testnet_rules ch" "get_last_height ch = Some 1270001"
    using that by (simp add: is_nova_feature_activated_def)
  show ?thesis
    using testnet mainnet nova_gate_closed [of tx e ch] nova_gate_open [of ch e tx] active
    by blast
qed

theorem nova_feature_gate_witness:
  "check_transaction_basic example_env
     (example_chain (confirmed_one (funding_tx 20000 attach_etp) 100) 1270000)
     (spending_tx 4 0 [example_output 10000 ''addr2'' [] attach_etp])
   = nova_feature_not_activated
   \<and> check_transaction_basic example_env
       (example_chain (confirmed_one (funding_tx 20000 attach_etp) 100) 1270001)
       (spending_tx 4 0 [example_output 10000 ''addr2'' [] attach_etp])
     \<noteq> nova_feature_not_activated
   \<and> \<not> is_nova_feature_activated
         (example_chain (confirmed_one (funding_tx 20000 attach_etp) 100) 1270000)
   \<and> is_nova_feature_activated
       (example_chain (confirmed_one (funding_tx 20000 attach_etp) 100) 1270001)"
proof -
  let ?tx = "spending_tx 4 0 [example_output 10000 ''addr2'' [] attach_etp]"
  let ?c0 = "example_chain (confirmed_one (funding_tx 20000 attach_etp) 100) 1270000"
  let ?c1 = "example_chain (confirmed_one (funding_tx 20000 attach_etp) 100) 1270001"
  have given: "version ?tx = check_nova_feature example_env"
      "check_nova_feature example_env < max_version example_env"
      "\<not> use_testnet_rules ?c0" "get_last_height ?c0 = Some 1270000"
      "\<not> use_testnet_rules ?c1" "get_last_height ?c1 = Some 1270001"
      "check_model_param_tx example_env ?tx ?c1 \<noteq> nova_feature_not_activated"
    by simp_all
  have below: "\<not> (1270000 :: uint64) < 1270000" and above: "(1270000 :: uint64) < 1270001"
    by simp_all
  show ?thesis
    using given below above nova_feature_gate [of ?c0 1270000 ?tx example_env]
      nova_feature_gate [of ?c1 1270001 ?tx example_env]
    by blast
qed

subsection \<open>C4: the volume rules of a secondary issue\<close>

text \<open>
  C4. Let the transaction have a secondary-issue output, let the loop over the outputs
  of \<^verbatim>\<open>check_secondaryissue_transaction\<close> run through with the locals \<open>s\<close>, let
  \<open>total_volume\<close> be the chain's volume of the symbol, and let the issue-cert check pass.
  Then \<^verbatim>\<open>asset_transfer_volume\<close> is the sum of the asset-transfer amounts of the
  outputs; if \<open>total_volume\<close> plus the declared secondary-issue amount exceeds
  \<^verbatim>\<open>max_uint64\<close> the transaction is rejected (with \<open>asset_secondaryissue_error\<close>);
  if it does not and \<^verbatim>\<open>is_secondaryissue_owns_enough\<close> fails, the transaction is
  rejected with \<open>asset_secondaryissue_share_not_enough\<close>. With the threshold read as a
  percentage, a chain volume of 1000000 and a threshold of 50: a transfer volume of
  400000 is rejected with \<open>asset_secondaryissue_share_not_enough\<close>, and with a transfer
  volume of 600000 that check passes.
\<close>

theorem secondaryissue_volume_rules:
  assumes has: "list_ex is_asset_secondaryissue (outputs tx)"
    and loop: "run_loop (secondaryissue_output e) (outputs tx) secondaryissue_initial
                 = Continue s"
    and volume: "total_volume = get_asset_volume ch (si_asset_symbol s)"
    and cert: "\<not> (version tx \<ge> check_nova_feature e
                   \<and> \<not> test_certs (si_certs_out s) cert_issue)"
  shows "si_asset_transfer_volume s = total_output_transfer_amount tx
         \<and> (2 ^ 64 \<le> unat total_volume + unat (si_secondaryissue_asset_amount s)
            \<longrightarrow> check_secondaryissue_transaction e ch tx = Inr asset_secondaryissue_error)
         \<and> (unat total_volume + unat (si_secondaryissue_asset_amount s) < 2 ^ 64
              \<and> \<not> is_secondaryissue_owns_enough e (si_asset_transfer_volume s) total_volume
                     (si_secondaryissue_threshold s)
            \<longrightarrow> check_secondaryissue_transaction e ch tx
                  = Inr asset_secondaryissue_share_not_enough)
         \<and> (unat total_volume + unat (si_secondaryissue_asset_amount s) < 2 ^ 64
              \<and> is_secondaryissue_owns_enough e = owns_enough_percent
              \<and> total_volume = 1000000 \<and> si_secondaryissue_threshold s = 50
            \<longrightarrow> (si_asset_transfer_volume s = 400000
                   \<longrightarrow> check_secondaryissue_transaction e ch tx
                         = Inr asset_secondaryissue_share_not_enough)
                \<and> (si_asset_transfer_volume s = 600000
                   \<longrightarrow> is_secondaryissue_owns_enough e (si_asset_transfer_volume s)
                         total_volume (si_secondaryissue_threshold s)
                       \<and> check_secondaryissue_transaction e ch tx
                           \<noteq> Inr asset_secondaryissue_share_not_enough))"
proof -
  have reduce: "check_secondaryissue_transaction e ch tx = secondaryissue_volume_checks e ch tx s"
    using has loop by (simp add: check_secondaryissue_transaction_def)
  have transfer_volume: "si_asset_transfer_volume s = total_output_transfer_amount tx"
    using secondaryissue_loop_volume [OF loop]
    by (simp add: total_output_transfer_amount_def secondaryissue_initial_def)
  have overflow: "check_secondaryissue_transaction e ch tx = Inr asset_secondaryissue_error"
    if "2 ^ 64 \<le> unat total_volume + unat (si_secondaryissue_asset_amount s)"
    using that cert
      secondaryissue_overflow_iff [of "si_secondaryissue_asset_amount s" total_volume]
    by (simp add: reduce secondaryissue_volume_checks_def volume Let_def)
  have share: "check_secondaryissue_transaction e ch tx
                 = Inr asset_secondaryissue_share_not_enough"
    if "unat total_volume + unat (si_secondaryissue_asset_amount s) < 2 ^ 64"
       "\<not> is_secondaryissue_owns_enough e (si_asset_transfer_volume s) total_volume
            (si_secondaryissue_threshold s)"
    using that cert
      secondaryissue_overflow_iff [of "si_secondaryissue_asset_amount s" total_volume]
    by (simp add: reduce secondaryissue_volume_checks_def volume Let_def)
  have inputs_codes: "run_loop (secondaryissue_input ch sy ad) ins ()
                        \<noteq> Return asset_secondaryissue_share_not_enough" for sy ad ins
    by (induction ins)
       (auto simp: secondaryissue_input_def split: flow.splits option.splits sum.splits
          if_splits)
  have passes: "check_secondaryissue_transaction e ch tx
                  \<noteq> Inr asset_secondaryissue_share_not_enough"
    if "unat total_volume + unat (si_secondaryissue_asset_amount s) < 2 ^ 64"
       "is_secondaryissue_owns_enough e (si_asset_transfer_volume s) total_volume
          (si_secondaryissue_threshold s)"
    using that cert
      secondaryissue_overflow_iff [of "si_secondaryissue_asset_amount s" total_volume]
      inputs_codes [of "si_asset_symbol s" "si_asset_address s" "inputs tx"]
    by (auto simp: reduce secondaryissue_volume_checks_def volume Let_def
             split: flow.splits)
  have low: "\<not> owns_enough_percent 400000 1000000 50"
    and high: "owns_enough_percent 600000 1000000 50"
    by (simp_all add: owns_enough_percent_def)
  show ?thesis
    using transfer_volume overflow share passes low high by metis
qed

theorem secondaryissue_volume_rules_witness:
  "check_secondaryissue_transaction example_env
     (example_chain (confirmed_one (funding_tx 20000 attach_etp) 100) 5000)
     (spending_tx 2 0
        [example_output 0 ''addr1'' []
           (attach_asset_secondaryissue
              \<lparr>detail_symbol = ''ABC'', maximum_supply = 500, secondaryissue_threshold = 50,
               detail_is_asset_secondaryissue = True, issuer = ''ALICE'',
               detail_address = ''addr1'', asset_cert_mask = []\<rparr>),
         example_output 10000 ''addr1'' []
           (attach_asset_transfer \<lparr>transfer_symbol = ''ABC'', quantity = 400000\<rparr>)])
   = Inr asset_secondaryissue_share_not_enough
   \<and> check_secondaryissue_transaction example_env
       (example_chain (confirmed_one (funding_tx 20000 attach_etp) 100) 5000)
       (spending_tx 2 0
          [example_output 0 ''addr1'' []
             (attach_asset_secondaryissue
                \<lparr>detail_symbol = ''ABC'', maximum_supply = 500, secondaryissue_threshold = 50,
                 detail_is_asset_secondaryissue = True, issuer = ''ALICE'',
                 detail_address = ''addr1'', asset_cert_mask = []\<rparr>),
           example_output 10000 ''addr1'' []
             (attach_asset_transfer \<lparr>transfer_symbol = ''ABC'', quantity = 600000\<rparr>)])
     \<noteq> Inr asset_secondaryissue_share_not_enough
   \<and> check_secondaryissue_transaction example_env
       (example_chain (confirmed_one (funding_tx 20000 attach_etp) 100) 5000)
       (spending_tx 2 0
          [example_output 0 ''addr1'' []
             (attach_asset_secondaryissue
                \<lparr>detail_symbol = ''ABC'', maximum_supply = 18446744073709551615,
                 secondaryissue_threshold = 50,
                 detail_is_asset_secondaryissue = True, issuer = ''ALICE'',
                 detail_address = ''addr1'', asset_cert_mask = []\<rparr>),
           example_output 10000 ''addr1'' []
             (attach_asset_transfer \<lparr>transfer_symbol = ''ABC'', quantity = 600000\<rparr>)])
     = Inr asset_secondaryissue_error"
proof -
  let ?ch = "example_chain (confirmed_one (funding_tx 20000 attach_etp) 100) 5000"
  let ?tx = "\<lambda>amt q. spending_tx 2 0
        [example_output 0 ''addr1'' []
           (attach_asset_secondaryissue
              \<lparr>detail_symbol = ''ABC'', maximum_supply = amt, secondaryissue_threshold = 50,
               detail_is_asset_secondaryissue = True, issuer = ''ALICE'',
               detail_address = ''addr1'', asset_cert_mask = []\<rparr>),
         example_output 10000 ''addr1'' []
           (attach_asset_transfer \<lparr>transfer_symbol = ''ABC'', quantity = q\<rparr>)]"
  let ?s = "\<lambda>amt q. \<lparr>si_asset_symbol = ''ABC'', si_asset_address = ''addr1'',
               si_asset_cert_owner = [], si_secondaryissue_threshold = 50,
               si_secondaryissue_asset_amount = amt, si_asset_transfer_volume = q,
               si_num_asset_secondaryissue = 1, si_num_asset_transfer = 1,
               si_num_asset_cert = 0, si_certs_out = []\<rparr>"
  have present: "list_ex is_asset_secondaryissue (outputs (?tx amt q))" for amt q
    by (simp add: is_asset_secondaryissue_def)
  have looped: "run_loop (secondaryissue_output example_env) (outputs (?tx amt q))
                secondaryissue_initial = Continue (?s amt q)" for amt q
    by (simp only: example_tx_simps secondaryissue_loop_example)
  have volume_eq: "(1000000 :: uint64) = get_asset_volume ?ch (si_asset_symbol (?s amt q))"
    for amt q
    by simp
  have cert_ok: "\<not> (version (?tx amt q) \<ge> check_nova_feature example_env
                   \<and> \<not> test_certs (si_certs_out (?s amt q)) cert_issue)" for amt q
    by simp
  have room: "unat (1000000 :: uint64) + unat (si_secondaryissue_asset_amount (?s 500 q))
                < 2 ^ 64" for q
    by simp
  have full: "2 ^ 64 \<le> unat (1000000 :: uint64)
                + unat (si_secondaryissue_asset_amount (?s 18446744073709551615 600000))"
    by simp
  have percent: "is_secondaryissue_owns_enough example_env = owns_enough_percent"
    by simp
  have low: "check_secondaryissue_transaction example_env ?ch (?tx 500 400000)
               = Inr asset_secondaryissue_share_not_enough"
    using secondaryissue_volume_rules [OF present looped volume_eq cert_ok, of 500 400000] room [of 400000]
      percent
    by simp
  have high: "check_secondaryissue_transaction example_env ?ch (?tx 500 600000)
               \<noteq> Inr asset_secondaryissue_share_not_enough"
    using secondaryissue_volume_rules [OF present looped volume_eq cert_ok, of 500 600000] room [of 600000]
      percent
    by simp
  have over: "check_secondaryissue_transaction example_env ?ch
                (?tx 18446744073709551615 600000) = Inr asset_secondaryissue_error"
    using secondaryissue_volume_rules [OF present looped volume_eq cert_ok, of 18446744073709551615 600000]
      full
    by blast
  show ?thesis
    using low high over by simp
qed

subsection \<open>C8: the inputs of a did transfer\<close>

text \<open>
  C8. Let the transaction have a did-transfer output. If the validator accepts the
  transaction then \<^verbatim>\<open>check_did_transaction\<close> has returned \<open>success\<close>, and it
  returns \<open>success\<close> only if the transaction has exactly two inputs, one of which
  spends a did output of the transferred symbol and one of which spends an etp output
  at the did's new address. With three inputs it never returns \<open>success\<close>; it
  returns \<open>did_input_error\<close> when the loop reaches the did-transfer output (the
  outputs before it pass and none of them is a did output) and the checks on that output
  that precede \<^verbatim>\<open>connect_did_input\<close> pass.
\<close>

theorem did_transfer_inputs:
  assumes out: "out \<in> set (outputs tx)"
    and kind: "kind_of out = attach_did_transfer detail"
  shows "(start e ch pl tx st = Inr [(success, u)]
            \<longrightarrow> check_did_transaction e ch tx = Inr success)
         \<and> (check_did_transaction e ch tx = Inr success
            \<longrightarrow> length (inputs tx) = 2
                \<and> list_ex (spends_did ch (did_detail_symbol detail)) (inputs tx)
                \<and> list_ex (spends_etp_at ch (did_detail_address detail)) (inputs tx))
         \<and> (length (inputs tx) = 3 \<longrightarrow> check_did_transaction e ch tx \<noteq> Inr success)
         \<and> (length (inputs tx) = 3 \<and> outputs tx = before @ out # after
              \<and> run_loop (did_output e ch tx) before None = Continue None
              \<and> check_attachment_address e out ch = success
              \<and> check_attachment_did_match_address e out ch = success
              \<and> connect_input_address_match_did ch tx out = Inr True
              \<and> is_did_exist ch (did_detail_symbol detail)
              \<and> \<not> is_address_registered_did ch (did_detail_address detail)
            \<longrightarrow> check_did_transaction e ch tx = Inr did_input_error)"
proof -
  have validated: "check_did_transaction e ch tx = Inr success"
    if "start e ch pl tx st = Inr [(success, u)]"
    using start_accepted [OF that] basic_checks_success check_transaction_success by blast
  have shape: "length (inputs tx) = 2
               \<and> list_ex (spends_did ch (did_detail_symbol detail)) (inputs tx)
               \<and> list_ex (spends_etp_at ch (did_detail_address detail)) (inputs tx)"
    if "check_did_transaction e ch tx = Inr success"
  proof -
    from check_did_transaction_success [OF that] obtain ty where
      "run_loop (did_output e ch tx) (outputs tx) None = Continue ty" ..
    from run_loop_Continue_member [OF this out] obtain s1 s2 where
      "did_output e ch tx out s1 = Continue s2" by blast
    from connect_did_input_transfer [OF did_output_transfer_Continue [OF this kind]]
    show ?thesis .
  qed
  have three: "check_did_transaction e ch tx \<noteq> Inr success" if "length (inputs tx) = 3"
    using shape that by auto
  have reported: "check_did_transaction e ch tx = Inr did_input_error"
    if "length (inputs tx) = 3" "outputs tx = before @ out # after"
       "run_loop (did_output e ch tx) before None = Continue None"
       "check_attachment_address e out ch = success"
       "check_attachment_did_match_address e out ch = success"
       "connect_input_address_match_did ch tx out = Inr True"
       "is_did_exist ch (did_detail_symbol detail)"
       "\<not> is_address_registered_did ch (did_detail_address detail)"
  proof -
    have "did_output e ch tx out None = Return did_input_error"
      using did_output_transfer_wrong_inputs [OF kind _ that(4-8)] that(1) by simp
    then show ?thesis
      using that(2,3) by (simp add: check_did_transaction_def run_loop_append)
  qed
  show ?thesis
    using validated shape three reported by blast
qed

theorem did_transfer_inputs_witness:
  "check_did_transaction example_env
     (example_chain
        (confirmed_two
           (funding_tx 0
              (attach_did_register
                 \<lparr>did_detail_symbol = ''ALICE'', did_detail_address = ''addr0''\<rparr>))
           (funding_tx 20000 attach_etp)) 5000)
     (did_transfer_tx [example_input 7 0, example_input 9 0]) = Inr success
   \<and> length (inputs (did_transfer_tx [example_input 7 0, example_input 9 0])) = 2
   \<and> list_ex
        (spends_did
           (example_chain
              (confirmed_two
                 (funding_tx 0
                    (attach_did_register
                       \<lparr>did_detail_symbol = ''ALICE'', did_detail_address = ''addr0''\<rparr>))
                 (funding_tx 20000 attach_etp)) 5000) ''ALICE'')
        (inputs (did_transfer_tx [example_input 7 0, example_input 9 0]))
   \<and> list_ex
        (spends_etp_at
           (example_chain
              (confirmed_two
                 (funding_tx 0
                    (attach_did_register
                       \<lparr>did_detail_symbol = ''ALICE'', did_detail_address = ''addr0''\<rparr>))
                 (funding_tx 20000 attach_etp)) 5000) ''addr1'')
        (inputs (did_transfer_tx [example_input 7 0, example_input 9 0]))
   \<and> check_did_transaction example_env
       (example_chain
          (confirmed_two
             (funding_tx 0
                (attach_did_register
                   \<lparr>did_detail_symbol = ''ALICE'', did_detail_address = ''addr0''\<rparr>))
             (funding_tx 20000 attach_etp)) 5000)
       (did_transfer_tx [example_input 7 0, example_input 9 0, example_input 9 0])
     = Inr did_input_error"
proof -
  let ?ch = "example_chain
               (confirmed_two
                  (funding_tx 0
                     (attach_did_register
                        \<lparr>did_detail_symbol = ''ALICE'', did_detail_address = ''addr0''\<rparr>))
                  (funding_tx 20000 attach_etp)) 5000"
  let ?detail = "\<lparr>did_detail_symbol = ''ALICE'', did_detail_address = ''addr1''\<rparr>"
  let ?out = "example_output 0 ''addr1'' [] (attach_did_transfer ?detail)"
  let ?tx2 = "did_transfer_tx [example_input 7 0, example_input 9 0]"
  let ?tx3 = "did_transfer_tx [example_input 7 0, example_input 9 0, example_input 9 0]"
  have out2: "?out \<in> set (outputs ?tx2)" and out3: "?out \<in> set (outputs ?tx3)"
    by simp_all
  have kind: "kind_of ?out = attach_did_transfer ?detail"
    by simp
  have two: "check_did_transaction example_env ?ch ?tx2 = Inr success"
    by (simp add: check_did_transaction_def did_output_def connect_input_address_match_did_def
          connect_did_input_def did_input_def outputs_at_def kind_defs get_did_symbol_def)
  have three: "length (inputs ?tx3) = 3 \<and> outputs ?tx3 = [] @ ?out # []
               \<and> run_loop (did_output example_env ?ch ?tx3) [] None = Continue None
               \<and> check_attachment_address example_env ?out ?ch = success
               \<and> check_attachment_did_match_address example_env ?out ?ch = success
               \<and> connect_input_address_match_did ?ch ?tx3 ?out = Inr True
               \<and> is_did_exist ?ch (did_detail_symbol ?detail)
               \<and> \<not> is_address_registered_did ?ch (did_detail_address ?detail)"
    by (simp add: connect_input_address_match_did_def)
  have shape: "length (inputs ?tx2) = 2
               \<and> list_ex (spends_did ?ch ''ALICE'') (inputs ?tx2)
               \<and> list_ex (spends_etp_at ?ch ''addr1'') (inputs ?tx2)"
    using two did_transfer_inputs [OF out2 kind, of example_env ?ch empty_pool fresh_state "[]"]
    by simp
  have reported: "check_did_transaction example_env ?ch ?tx3 = Inr did_input_error"
    using three
      did_transfer_inputs [OF out3 kind, of example_env ?ch empty_pool fresh_state "[]" "[]" "[]"]
    by (simp add: connect_input_address_match_did_def)
  show ?thesis
    using two shape reported by blast
qed

subsection \<open>C9: the handler is called once\<close>

text \<open>
  C9 fails on the transaction below. Its output names the sender ALICE, and its input
  points at output 5 of a confirmed transaction that has one output. The basic checks
  reach \<^verbatim>\<open>connect_input_address_match_did\<close>, where \<^verbatim>\<open>prev_tx.outputs.at\<close>
  throws; the exception leaves \<^verbatim>\<open>start\<close> before any call of the handler.
\<close>

theorem start_throws_out_of_range:
  "start example_env (example_chain (confirmed_one (funding_tx 20000 attach_etp) 100) 5000)
     empty_pool (spending_tx 2 5 [example_output 10000 ''addr2'' ''ALICE'' attach_etp])
     fresh_state
   = Inl out_of_range"
proof -
  let ?ch = "example_chain (confirmed_one (funding_tx 20000 attach_etp) 100) 5000"
  let ?tx = "spending_tx 2 5 [example_output 10000 ''addr2'' ''ALICE'' attach_etp]"
  have basic: "check_transaction_basic example_env ?ch ?tx = success"
    by (rule check_transaction_basic_example) simp_all
  have did: "check_did_transaction example_env ?ch ?tx = Inl out_of_range"
    by (simp add: check_did_transaction_def did_output_def connect_input_address_match_did_def
          address_match_did_input_def outputs_at_example_five)
  have "check_transaction example_env ?ch ?tx = Inl out_of_range"
    by (simp add: check_transaction_def basic check_features_example did)
  then show ?thesis
    by (simp add: start_def basic_checks_def)
qed

end
